theory Spec2Isabelle
  imports Main "HOL-Library.Sublist"
begin

section \<open>Paths\<close>

text \<open>
  A \<^verbatim>\<open>pathlib.Path\<close> on a POSIX system, already parsed: whether it is anchored at the
  root, and its components in order. The source only ever takes parents and joins
  one-component names, and turns a path into text with \<^verbatim>\<open>str\<close> (inside f-strings).
\<close>

datatype path = Path (absolute: bool) (parts: "string list")

text \<open>\<^verbatim>\<open>p.parent\<close>: the last component is dropped; the root and \<^verbatim>\<open>.\<close> are their own parents.\<close>

fun parent :: "path \<Rightarrow> path" where
  "parent (Path a ps) = Path a (butlast ps)"

text \<open>\<^verbatim>\<open>p / name\<close> for a name that is a single relative component.\<close>

fun joinpath :: "path \<Rightarrow> string \<Rightarrow> path" where
  "joinpath (Path a ps) name = Path a (ps @ [name])"

text \<open>\<^verbatim>\<open>sep.join(xs)\<close>.\<close>

fun join :: "string \<Rightarrow> string list \<Rightarrow> string" where
  "join sep [] = []"
| "join sep [x] = x"
| "join sep (x # y # ys) = x @ sep @ join sep (y # ys)"

text \<open>\<^verbatim>\<open>str(p)\<close>: \<^verbatim>\<open>/a/b\<close> for an absolute path, \<^verbatim>\<open>a/b\<close> for a relative one, \<^verbatim>\<open>.\<close> for the empty relative path.\<close>

fun str_path :: "path \<Rightarrow> string" where
  "str_path (Path a ps) =
     (if a then ''/'' @ join ''/'' ps
      else if ps = [] then ''.'' else join ''/'' ps)"

section \<open>The world outside the script\<close>

datatype node = Dir | File string

type_synonym filesystem = "path \<Rightarrow> node option"

datatype exn =
    FileNotFoundError
  | FileExistsError
  | IsADirectoryError
  | NotADirectoryError
  | OSError

text \<open>
  The state the script acts on: the file system; what has been written to the console,
  one entry per \<^verbatim>\<open>print\<close> call or per chunk of inherited child output; the command lines
  handed to the shell so far; the behaviour of the shell, which for a command line, a
  working directory and a file system either fails to start the child (an exception of
  \<^verbatim>\<open>subprocess.run\<close> other than \<^verbatim>\<open>CalledProcessError\<close>) or gives the exit status, the
  combined output and the file system the child leaves behind; and the text of
  \<^verbatim>\<open>f"{duration:.2f}"\<close>, which is read off the wall clock.
\<close>

record world =
  fs :: filesystem
  console :: "string list"
  commands :: "string list"
  shell :: "string \<Rightarrow> path \<Rightarrow> filesystem \<Rightarrow> exn + (int \<times> string \<times> filesystem)"
  duration_text :: string

text \<open>
  Every operation returns the value or the exception raised, together with the world as
  it is at that moment: effects made before a raise stay.
\<close>

type_synonym 'a outcome = "(exn + 'a) \<times> world"

definition print :: "string \<Rightarrow> world \<Rightarrow> world" where
  "print s w = w\<lparr>console := console w @ [s]\<rparr>"

text \<open>\<^verbatim>\<open>p.exists()\<close>.\<close>

definition exists :: "path \<Rightarrow> world \<Rightarrow> bool" where
  "exists p w = (fs w p \<noteq> None)"

text \<open>
  \<^verbatim>\<open>p.mkdir(exist_ok=True)\<close> with \<^verbatim>\<open>parents=False\<close>: a missing parent raises
  \<^verbatim>\<open>FileNotFoundError\<close>; an existing directory is left alone; an existing
  non-directory re-raises the \<^verbatim>\<open>FileExistsError\<close> of \<^verbatim>\<open>os.mkdir\<close>.
\<close>

definition mkdir :: "path \<Rightarrow> world \<Rightarrow> unit outcome" where
  "mkdir p w =
     (case fs w (parent p) of
        None \<Rightarrow> (Inl FileNotFoundError, w)
      | Some (File c) \<Rightarrow> (Inl NotADirectoryError, w)
      | Some Dir \<Rightarrow>
          (case fs w p of
             None \<Rightarrow> (Inr (), w\<lparr>fs := (fs w)(p \<mapsto> Dir)\<rparr>)
           | Some Dir \<Rightarrow> (Inr (), w)
           | Some (File c) \<Rightarrow> (Inl FileExistsError, w)))"

text \<open>
  \<^verbatim>\<open>open(p, 'w')\<close>: the directory holding the file must exist; the file is created or
  truncated to the empty file.
\<close>

definition open_w :: "path \<Rightarrow> world \<Rightarrow> unit outcome" where
  "open_w p w =
     (case fs w (parent p) of
        None \<Rightarrow> (Inl FileNotFoundError, w)
      | Some (File c) \<Rightarrow> (Inl NotADirectoryError, w)
      | Some Dir \<Rightarrow>
          (case fs w p of
             Some Dir \<Rightarrow> (Inl IsADirectoryError, w)
           | _ \<Rightarrow> (Inr (), w\<lparr>fs := (fs w)(p \<mapsto> File [])\<rparr>)))"

text \<open>
  What is written through a descriptor opened with \<^verbatim>\<open>'w'\<close>, from its start: the file
  holds exactly that text afterwards.
\<close>

definition write_fd :: "path \<Rightarrow> string \<Rightarrow> world \<Rightarrow> world" where
  "write_fd p s w = w\<lparr>fs := (fs w)(p \<mapsto> File s)\<rparr>"

text \<open>\<^verbatim>\<open>open(p, 'r')\<close> followed by \<^verbatim>\<open>f.read()\<close>.\<close>

definition read_text :: "path \<Rightarrow> world \<Rightarrow> exn + string" where
  "read_text p w =
     (case fs w p of
        None \<Rightarrow> Inl FileNotFoundError
      | Some Dir \<Rightarrow> Inl IsADirectoryError
      | Some (File c) \<Rightarrow> Inr c)"

text \<open>
  \<^verbatim>\<open>subprocess.run(command, shell=True, cwd=cwd, ...)\<close> up to the exit of the child: the
  command line is recorded, and the shell of the world decides what happens.
\<close>

definition subprocess_run :: "string \<Rightarrow> path \<Rightarrow> world \<Rightarrow> (int \<times> string) outcome" where
  "subprocess_run command cwd w =
     (let w' = w\<lparr>commands := commands w @ [command]\<rparr>
      in case shell w command cwd (fs w) of
           Inl e \<Rightarrow> (Inl e, w')
         | Inr (rc, out, f') \<Rightarrow> (Inr (rc, out), w'\<lparr>fs := f'\<rparr>))"

section \<open>Text helpers\<close>

definition digit :: "nat \<Rightarrow> char" where
  "digit n = char_of (48 + n)"

fun str_nat :: "nat \<Rightarrow> string" where
  "str_nat n = (if n < 10 then [digit n] else str_nat (n div 10) @ [digit (n mod 10)])"

text \<open>\<^verbatim>\<open>str(i)\<close> for an integer, as an f-string renders it.\<close>

definition str_int :: "int \<Rightarrow> string" where
  "str_int i = (if i < 0 then ''-'' @ str_nat (nat (- i)) else str_nat (nat i))"

text \<open>
  \<^verbatim>\<open>s.lower()\<close> on text whose code points are below 256: the Latin capital letters,
  ASCII and Latin-1, move up by 32.
\<close>

definition lower_char :: "char \<Rightarrow> char" where
  "lower_char c =
     (let n = (of_char c :: nat)
      in if (65 \<le> n \<and> n \<le> 90) \<or> (192 \<le> n \<and> n \<le> 222 \<and> n \<noteq> 215)
         then char_of (n + 32) else c)"

definition lower :: "string \<Rightarrow> string" where
  "lower s = map lower_char s"

text \<open>\<^verbatim>\<open>sub in s\<close> on strings.\<close>

fun contains :: "string \<Rightarrow> string \<Rightarrow> bool" where
  "contains sub [] = (sub = [])"
| "contains sub (c # cs) = (prefix sub (c # cs) \<or> contains sub cs)"

text \<open>The number of positions of a text at which a pattern starts.\<close>

fun occurrences :: "string \<Rightarrow> string \<Rightarrow> nat" where
  "occurrences pat [] = (if pat = [] then 1 else 0)"
| "occurrences pat (c # cs) = (if prefix pat (c # cs) then 1 else 0) + occurrences pat cs"

text \<open>The text of lines, each ended by a newline.\<close>

definition unlines :: "string list \<Rightarrow> string" where
  "unlines ls = concat (map (\<lambda>l. l @ ''\<newline>'') ls)"

section \<open>The flow orchestrator\<close>

record VixenSynthesisFlow =
  project_root :: path
  config_file :: path
  results_dir :: path
  reports_dir :: path
  logs_dir :: path

text \<open>The loop of the constructor over the directories to create; it stops at the first raise.\<close>

fun mkdir_each :: "path list \<Rightarrow> world \<Rightarrow> unit outcome" where
  "mkdir_each [] w = (Inr (), w)"
| "mkdir_each (dir_path # rest) w =
     (case mkdir dir_path w of
        (Inl e, w') \<Rightarrow> (Inl e, w')
      | (Inr u, w') \<Rightarrow> mkdir_each rest w')"

text \<open>
  The assignments of \<^verbatim>\<open>VixenSynthesisFlow.__init__\<close>; the argument is the value of
  \<^verbatim>\<open>Path(__file__)\<close>.
\<close>

definition new_flow :: "path \<Rightarrow> VixenSynthesisFlow" where
  "new_flow file =
     (let root = parent (parent file)
      in \<lparr>project_root = root,
          config_file = joinpath (joinpath root ''config'') ''openroad_config.tcl'',
          results_dir = joinpath root ''results'',
          reports_dir = joinpath root ''reports'',
          logs_dir = joinpath root ''logs''\<rparr>)"

text \<open>\<^verbatim>\<open>VixenSynthesisFlow.__init__\<close>: the assignments, then the directories.\<close>

definition init :: "path \<Rightarrow> world \<Rightarrow> VixenSynthesisFlow outcome" where
  "init file w =
     (let self = new_flow file
      in case mkdir_each [results_dir self, reports_dir self, logs_dir self] w of
           (Inl e, w') \<Rightarrow> (Inl e, w')
         | (Inr u, w') \<Rightarrow> (Inr self, w'))"

text \<open>
  \<^verbatim>\<open>run_command\<close>. Only \<^verbatim>\<open>CalledProcessError\<close>, which \<^verbatim>\<open>check=True\<close> raises for a
  non-zero exit status, is caught; opening the log file happens outside the \<^verbatim>\<open>try\<close>.
  With a log file the combined output of the child goes to it; without one the child
  inherits the console.
\<close>

definition run_unlogged :: "string \<Rightarrow> path \<Rightarrow> world \<Rightarrow> bool outcome" where
  "run_unlogged command cwd w =
     (case subprocess_run command cwd w of
        (Inl e, w1) \<Rightarrow> (Inl e, w1)
      | (Inr (rc, out), w1) \<Rightarrow>
          (let w2 = w1\<lparr>console := console w1 @ [out]\<rparr>
           in if rc \<noteq> 0
              then (Inr False, print (''Error: Command failed with return code '' @ str_int rc) w2)
              else (Inr (rc = 0), w2)))"

definition run_logged :: "path \<Rightarrow> string \<Rightarrow> path \<Rightarrow> world \<Rightarrow> bool outcome" where
  "run_logged log_path command cwd w =
     (case open_w log_path w of
        (Inl e, w1) \<Rightarrow> (Inl e, w1)
      | (Inr u, w1) \<Rightarrow>
          (case subprocess_run command cwd w1 of
             (Inl e, w2) \<Rightarrow> (Inl e, w2)
           | (Inr (rc, out), w2) \<Rightarrow>
               (let w3 = write_fd log_path out w2
                in if rc \<noteq> 0
                   then (Inr False, print (''Error: Command failed with return code '' @ str_int rc) w3)
                   else (Inr (rc = 0), w3))))"

definition run_command ::
    "VixenSynthesisFlow \<Rightarrow> string \<Rightarrow> string option \<Rightarrow> path option \<Rightarrow> world \<Rightarrow> bool outcome" where
  "run_command self command log_file cwd w =
     (let cwd' = (case cwd of None \<Rightarrow> project_root self | Some d \<Rightarrow> d);
          w0 = print (''Running: '' @ command) w
      in case log_file of
           None \<Rightarrow> run_unlogged command cwd' w0
         | Some name \<Rightarrow>
             if name = [] then run_unlogged command cwd' w0
             else run_logged (joinpath (logs_dir self) name) command cwd' w0)"

definition tools :: "string list" where
  "tools = [''openroad'', ''yosys'', ''klayout'']"

text \<open>The loop of \<^verbatim>\<open>check_prerequisites\<close> over the tools, collecting the missing ones.\<close>

fun probe_tools ::
    "VixenSynthesisFlow \<Rightarrow> string list \<Rightarrow> string list \<Rightarrow> world \<Rightarrow> (string list) outcome" where
  "probe_tools self [] missing_tools w = (Inr missing_tools, w)"
| "probe_tools self (tool # rest) missing_tools w =
     (case run_command self (''which '' @ tool) None None w of
        (Inl e, w') \<Rightarrow> (Inl e, w')
      | (Inr found, w') \<Rightarrow>
          probe_tools self rest (if \<not> found then missing_tools @ [tool] else missing_tools) w')"

definition check_prerequisites :: "VixenSynthesisFlow \<Rightarrow> world \<Rightarrow> bool outcome" where
  "check_prerequisites self w =
     (case probe_tools self tools [] w of
        (Inl e, w') \<Rightarrow> (Inl e, w')
      | (Inr missing_tools, w') \<Rightarrow>
          if missing_tools \<noteq> []
          then (Inr False,
                print ''Please install OpenROAD and required dependencies''
                  (print (''Error: Missing required tools: '' @ join '', '' missing_tools) w'))
          else (Inr True, w'))"

text \<open>The fixed lines of the template before the first substitution (source lines 76 to 80).\<close>

definition tcl_header :: "string list" where
  "tcl_header = [
     ''# ============================================================================='',
     ''# Vixen Dio Pro - OpenROAD Synthesis Script'',
     ''# ============================================================================='',
     '''',
     ''# Load configuration'']"

text \<open>The fixed lines of the template after the last substitution (source lines 87 to 204).\<close>

definition tcl_flow :: "string list" where
  "tcl_flow = [
     '''',
     ''# Read liberty files'',
     ''foreach lib_file $LIB_FILES {'',
     ''    if {[file exists $lib_file]} {'',
     ''        read_liberty $lib_file'',
     ''    } else {'',
     ''        puts \"Warning: Liberty file $lib_file not found\"'',
     ''    }'',
     ''}'',
     '''',
     ''# Read LEF files  '',
     ''foreach lef_file $LEF_FILES {'',
     ''    if {[file exists $lef_file]} {'',
     ''        read_lef $lef_file'',
     ''    } else {'',
     ''        puts \"Warning: LEF file $lef_file not found\"'',
     ''    }'',
     ''}'',
     '''',
     ''# Read Verilog files'',
     ''foreach verilog_file $VERILOG_FILES {'',
     ''    if {[file exists $verilog_file]} {'',
     ''        read_verilog $verilog_file'',
     ''    } else {'',
     ''        puts \"Error: Verilog file $verilog_file not found\"'',
     ''        exit 1'',
     ''    }'',
     ''}'',
     '''',
     ''# Link design'',
     ''link_design $TOP_MODULE'',
     '''',
     ''# Read constraints'',
     ''if {[file exists $SDC_FILE]} {'',
     ''    read_sdc $SDC_FILE'',
     ''} else {'',
     ''    puts \"Warning: SDC file $SDC_FILE not found, using default constraints\"'',
     ''    create_clock -name clk -period $CLOCK_PERIOD [get_ports clk]'',
     ''}'',
     '''',
     ''# Initialize floorplan'',
     ''initialize_floorplan '' @ [CHR 0x5C],
     ''    -die_area $DIE_AREA '' @ [CHR 0x5C],
     ''    -core_area $CORE_AREA '' @ [CHR 0x5C],
     ''    -site unithd'',
     '''',
     ''# Place macros (if any)'',
     ''if {$ENABLE_MACRO_PLACEMENT} {'',
     ''    # Auto place any memory macros'',
     ''    auto_macro_placement'',
     ''}'',
     '''',
     ''# Power planning'',
     ''add_global_connection -net $POWER_NETS -pin_pattern VDD -power'',
     ''add_global_connection -net $GROUND_NETS -pin_pattern VSS -ground'',
     '''',
     ''# Global placement'',
     ''global_placement -density $PLACE_DENSITY'',
     ''puts \"Global placement completed\"'',
     '''',
     ''# Resize and buffer insertion'',
     ''estimate_parasitics -placement'',
     ''repair_design'',
     ''puts \"Initial repair completed\"'',
     '''',
     ''# Detailed placement'',
     ''detailed_placement'',
     ''puts \"Detailed placement completed\"'',
     '''',
     ''# Clock tree synthesis'',
     ''clock_tree_synthesis '' @ [CHR 0x5C],
     ''    -buf_list $CTS_BUF_CELL '' @ [CHR 0x5C],
     ''    -root_buf $CTS_BUF_CELL'',
     ''puts \"Clock tree synthesis completed\"'',
     '''',
     ''# Post-CTS optimization'',
     ''estimate_parasitics -placement'',
     ''repair_design'',
     ''puts \"Post-CTS repair completed\"'',
     '''',
     ''# Global routing'',
     ''set_routing_layers -signal $MIN_ROUTE_LAYER:$MAX_ROUTE_LAYER'',
     ''global_route'',
     ''puts \"Global routing completed\"'',
     '''',
     ''# Detailed routing'',
     ''detailed_route'',
     ''puts \"Detailed routing completed\"'',
     '''',
     ''# Final parasitic extraction and optimization'',
     ''estimate_parasitics -placement'',
     ''repair_design -max_wire_length 500'',
     ''puts \"Final repair completed\"'',
     '''',
     ''# Fill insertion'',
     ''filler_placement sky130_fd_sc_hd__fill_*'',
     ''puts \"Filler placement completed\"'',
     '''',
     ''# Generate reports'',
     ''report_checks -path_delay min_max -fields input_pin,net,fanout '' @ [CHR 0x5C],
     ''    > $reports_dir/timing_report.txt'',
     ''report_power > $reports_dir/power_report.txt'',
     ''report_design_area > $reports_dir/area_report.txt'',
     '''',
     ''# Write results'',
     ''write_def $results_dir/vixen_dio_pro_final.def'',
     ''write_verilog $results_dir/vixen_dio_pro_final.v'',
     ''write_sdf $results_dir/vixen_dio_pro_final.sdf'',
     ''write_spef $results_dir/vixen_dio_pro_final.spef'',
     '''',
     ''# GDS generation (if LEF/GDS libraries are available)'',
     ''if {[info exists GDS_LIBS]} {'',
     ''    write_gds $results_dir/vixen_dio_pro_final.gds'',
     ''    puts \"GDS file generated successfully\"'',
     ''}'',
     '''',
     ''puts \"Vixen Dio Pro synthesis flow completed successfully!\"'',
     ''exit 0'']"

text \<open>The f-string of \<^verbatim>\<open>generate_tcl_script\<close>: it opens with a newline.\<close>

definition tcl_script_text :: "VixenSynthesisFlow \<Rightarrow> string" where
  "tcl_script_text self =
     ''\<newline>'' @ unlines tcl_header
     @ unlines [
         ''source '' @ str_path (config_file self),
         '''',
         ''# Set up directories'',
         ''set results_dir \"'' @ str_path (results_dir self) @ ''\"'',
         ''set reports_dir \"'' @ str_path (reports_dir self) @ ''\"'',
         ''set logs_dir \"'' @ str_path (logs_dir self) @ ''\"'']
     @ unlines tcl_flow"

definition script_path_of :: "VixenSynthesisFlow \<Rightarrow> path" where
  "script_path_of self = joinpath (joinpath (project_root self) ''scripts'') ''vixen_synthesis.tcl''"

definition generate_tcl_script :: "VixenSynthesisFlow \<Rightarrow> world \<Rightarrow> path outcome" where
  "generate_tcl_script self w =
     (let tcl_script = tcl_script_text self;
          script_path = script_path_of self
      in case open_w script_path w of
           (Inl e, w') \<Rightarrow> (Inl e, w')
         | (Inr u, w') \<Rightarrow> (Inr script_path, write_fd script_path tcl_script w'))"

text \<open>
  \<^verbatim>\<open>print_summary\<close>. The source writes \<^verbatim>\<open>"\\n"\<close> in its strings: a backslash and
  the letter n, not a newline. \<^verbatim>\<open>except Exception\<close> around the read of the timing
  report catches every error of \<^verbatim>\<open>open\<close> and \<^verbatim>\<open>read\<close>.
\<close>

definition backslash_n :: string where
  "backslash_n = [CHR 0x5C, CHR ''n'']"

definition rule70 :: string where
  "rule70 = replicate 70 (CHR ''='')"

definition summary_timing :: "VixenSynthesisFlow \<Rightarrow> world \<Rightarrow> world" where
  "summary_timing self w =
     (let timing_report = joinpath (reports_dir self) ''timing_report.txt''
      in if exists timing_report w
         then (let w1 = print ''Timing Analysis:'' w
               in case read_text timing_report w1 of
                    Inr content \<Rightarrow>
                      if contains ''slack'' (lower content)
                      then print ''  - Timing report generated'' w1
                      else print ''  - Check timing report for detailed analysis'' w1
                  | Inl e \<Rightarrow> print ''  - Timing report available but could not be parsed'' w1)
         else w)"

definition summary_area_power :: "VixenSynthesisFlow \<Rightarrow> world \<Rightarrow> world" where
  "summary_area_power self w =
     (let area_report = joinpath (reports_dir self) ''area_report.txt'';
          power_report = joinpath (reports_dir self) ''power_report.txt'';
          w1 = (if exists area_report w
                then print ''  - Area report generated'' (print ''Area Analysis:'' w)
                else w)
      in if exists power_report w1
         then print ''  - Power report generated'' (print ''Power Analysis:'' w1)
         else w1)"

definition summary_outputs :: "VixenSynthesisFlow \<Rightarrow> world \<Rightarrow> world" where
  "summary_outputs self w =
     (let results = str_path (results_dir self);
          w1 = print (backslash_n @ ''Output files available in:'') w;
          w2 = print (''  - Results: '' @ results) w1;
          w3 = print (''  - Reports: '' @ str_path (reports_dir self)) w2;
          w4 = print (''  - Logs: '' @ str_path (logs_dir self)) w3;
          w5 = print (backslash_n @ ''Key files:'') w4;
          w6 = print (''  - Final netlist: '' @ results @ ''/vixen_dio_pro_final.v'') w5;
          w7 = print (''  - Layout (DEF): '' @ results @ ''/vixen_dio_pro_final.def'') w6;
          w8 = print (''  - Timing (SDF): '' @ results @ ''/vixen_dio_pro_final.sdf'') w7;
          w9 = print (''  - Parasitics: '' @ results @ ''/vixen_dio_pro_final.spef'') w8;
          gds_file = joinpath (results_dir self) ''vixen_dio_pro_final.gds''
      in if exists gds_file w9
         then print (''  - Layout (GDS): '' @ str_path gds_file) w9
         else w9)"

definition summary_specs :: "world \<Rightarrow> world" where
  "summary_specs w =
     (let w1 = print (backslash_n @ ''Processor specifications achieved:'') w;
          w2 = print ''  - Architecture: x86-64 CISC processor'' w1;
          w3 = print ''  - Cores: 1 physical core, 2 HT threads'' w2;
          w4 = print ''  - Pipeline: 20 stages'' w3;
          w5 = print ''  - Issue width: 3-way superscalar'' w4;
          w6 = print ''  - Process: 130nm'' w5;
          w7 = print ''  - Target frequency: 3.4 GHz'' w6
      in print (''  - Die area target: ~240 mm'' @ [CHR 0xC2, CHR 0xB2]) w7)"

definition print_summary :: "VixenSynthesisFlow \<Rightarrow> world \<Rightarrow> world" where
  "print_summary self w =
     (let w1 = print (backslash_n @ rule70) w;
          w2 = print ''VIXEN DIO PRO SYNTHESIS SUMMARY'' w1;
          w3 = print rule70 w2;
          w4 = summary_timing self w3;
          w5 = summary_area_power self w4;
          w6 = summary_outputs self w5
      in summary_specs w6)"

text \<open>\<^verbatim>\<open>run_synthesis\<close>.\<close>

definition run_synthesis :: "VixenSynthesisFlow \<Rightarrow> world \<Rightarrow> bool outcome" where
  "run_synthesis self w =
     (let w1 = print rule70 w;
          w2 = print ''Starting Vixen Dio Pro Synthesis Flow'' w1;
          w3 = print rule70 w2
      in case generate_tcl_script self w3 of
           (Inl e, w4) \<Rightarrow> (Inl e, w4)
         | (Inr tcl_script, w4) \<Rightarrow>
             (let command = ''openroad -no_splash '' @ str_path tcl_script
              in case run_command self command (Some ''synthesis.log'') None w4 of
                   (Inl e, w5) \<Rightarrow> (Inl e, w5)
                 | (Inr success, w5) \<Rightarrow>
                     if success
                     then (Inr success,
                           print_summary self
                             (print (backslash_n @ ''Synthesis completed successfully in ''
                                       @ duration_text w5 @ '' seconds!'') w5))
                     else (Inr success,
                           print (''Check log file: '' @ str_path (logs_dir self) @ ''/synthesis.log'')
                             (print (backslash_n @ ''Synthesis failed after ''
                                       @ duration_text w5 @ '' seconds.'') w5))))"

text \<open>
  \<^verbatim>\<open>main\<close>, run as the script: the arguments are \<^verbatim>\<open>sys.argv\<close> and \<^verbatim>\<open>Path(__file__)\<close>,
  the result is the exit status of the interpreter: 0 when \<^verbatim>\<open>main\<close> returns, the
  argument of \<^verbatim>\<open>sys.exit\<close>, and 1 for an exception nobody catches.
\<close>

definition usage :: "world \<Rightarrow> world" where
  "usage w =
     (let w1 = print ''Vixen Dio Pro Synthesis Flow'' w;
          w2 = print ''Usage: python3 vixen_synthesis.py'' w1;
          w3 = print (backslash_n @ ''This script runs the complete OpenROAD synthesis flow for'') w2
      in print ''the Vixen Dio Pro processor targeting 130nm process technology.'' w3)"

definition main :: "string list \<Rightarrow> path \<Rightarrow> world \<Rightarrow> int \<times> world" where
  "main argv file w =
     (if length argv > 1 \<and> argv ! 1 \<in> set [''-h'', ''--help'']
      then (0, usage w)
      else case init file w of
             (Inl e, w1) \<Rightarrow> (1, w1)
           | (Inr flow, w1) \<Rightarrow>
               (case check_prerequisites flow w1 of
                  (Inl e, w2) \<Rightarrow> (1, w2)
                | (Inr ok, w2) \<Rightarrow>
                    if \<not> ok then (1, w2)
                    else (case run_synthesis flow w2 of
                            (Inl e, w3) \<Rightarrow> (1, w3)
                          | (Inr success, w3) \<Rightarrow> if \<not> success then (1, w3) else (0, w3))))"

section \<open>Auxiliary notions and scenarios\<close>

text \<open>A path at which \<^verbatim>\<open>mkdir(exist_ok=True)\<close> has nothing to object to.\<close>

definition creatable :: "filesystem \<Rightarrow> path \<Rightarrow> bool" where
  "creatable f p = (f p = None \<or> f p = Some Dir)"

text \<open>The directories of the project root that the script names but never creates.\<close>

definition scripts_dir :: "VixenSynthesisFlow \<Rightarrow> path" where
  "scripts_dir self = joinpath (project_root self) ''scripts''"

definition config_dir :: "VixenSynthesisFlow \<Rightarrow> path" where
  "config_dir self = joinpath (project_root self) ''config''"

text \<open>A project in \<^verbatim>\<open>/proj\<close> with the script in \<^verbatim>\<open>/proj/scripts\<close>, and a shell on which every command exits with status 0.\<close>

definition file0 :: path where
  "file0 = Path True [''proj'', ''scripts'', ''vixen_synthesis.py'']"

definition fs0 :: filesystem where
  "fs0 = [Path True [] \<mapsto> Dir, Path True [''proj''] \<mapsto> Dir, Path True [''proj'', ''scripts''] \<mapsto> Dir,
          file0 \<mapsto> File []]"

definition world0 :: world where
  "world0 = \<lparr>fs = fs0, console = [], commands = [],
             shell = (\<lambda>command cwd f. Inr (0, ''done'', f)), duration_text = ''0.01''\<rparr>"

text \<open>The same project with the script kept in \<^verbatim>\<open>/proj/tools\<close>: there is no \<^verbatim>\<open>/proj/scripts\<close>.\<close>

definition file1 :: path where
  "file1 = Path True [''proj'', ''tools'', ''vixen_synthesis.py'']"

definition fs1 :: filesystem where
  "fs1 = [Path True [] \<mapsto> Dir, Path True [''proj''] \<mapsto> Dir, Path True [''proj'', ''tools''] \<mapsto> Dir,
          file1 \<mapsto> File []]"

definition world1 :: world where
  "world1 = world0\<lparr>fs := fs1\<rparr>"

text \<open>The world that construction leaves in \<^verbatim>\<open>/proj\<close>.\<close>

definition fs2 :: filesystem where
  "fs2 = fs0(Path True [''proj'', ''results''] \<mapsto> Dir,
             Path True [''proj'', ''reports''] \<mapsto> Dir,
             Path True [''proj'', ''logs''] \<mapsto> Dir)"

definition world2 :: world where
  "world2 = world0\<lparr>fs := fs2\<rparr>"

text \<open>The same world on another day: another clock, a console that is not empty.\<close>

definition world2_later :: world where
  "world2_later = world2\<lparr>console := [''earlier output''], duration_text := ''7203.55''\<rparr>"

text \<open>The timing report that \<^verbatim>\<open>print_summary\<close> looks at, and what one call of it prints.\<close>

definition timing_report_of :: "VixenSynthesisFlow \<Rightarrow> path" where
  "timing_report_of self = joinpath (reports_dir self) ''timing_report.txt''"

definition summary_lines :: "VixenSynthesisFlow \<Rightarrow> world \<Rightarrow> string list" where
  "summary_lines self w = drop (length (console w)) (console (print_summary self w))"

definition timing_lines :: "VixenSynthesisFlow \<Rightarrow> world \<Rightarrow> string list" where
  "timing_lines self w = drop (length (console w)) (console (summary_timing self w))"

text \<open>What \<^verbatim>\<open>print_summary\<close> prints after the part on timing.\<close>

definition after_timing_lines :: "VixenSynthesisFlow \<Rightarrow> world \<Rightarrow> string list" where
  "after_timing_lines self w =
     (if fs w (joinpath (reports_dir self) ''area_report.txt'') \<noteq> None
      then [''Area Analysis:'', ''  - Area report generated''] else [])
     @ (if fs w (joinpath (reports_dir self) ''power_report.txt'') \<noteq> None
        then [''Power Analysis:'', ''  - Power report generated''] else [])
     @ [backslash_n @ ''Output files available in:'',
        ''  - Results: '' @ str_path (results_dir self),
        ''  - Reports: '' @ str_path (reports_dir self),
        ''  - Logs: '' @ str_path (logs_dir self),
        backslash_n @ ''Key files:'',
        ''  - Final netlist: '' @ str_path (results_dir self) @ ''/vixen_dio_pro_final.v'',
        ''  - Layout (DEF): '' @ str_path (results_dir self) @ ''/vixen_dio_pro_final.def'',
        ''  - Timing (SDF): '' @ str_path (results_dir self) @ ''/vixen_dio_pro_final.sdf'',
        ''  - Parasitics: '' @ str_path (results_dir self) @ ''/vixen_dio_pro_final.spef'']
     @ (if fs w (joinpath (results_dir self) ''vixen_dio_pro_final.gds'') \<noteq> None
        then [''  - Layout (GDS): '' @ str_path (joinpath (results_dir self) ''vixen_dio_pro_final.gds'')]
        else [])
     @ [backslash_n @ ''Processor specifications achieved:'',
        ''  - Architecture: x86-64 CISC processor'',
        ''  - Cores: 1 physical core, 2 HT threads'',
        ''  - Pipeline: 20 stages'',
        ''  - Issue width: 3-way superscalar'',
        ''  - Process: 130nm'',
        ''  - Target frequency: 3.4 GHz'',
        ''  - Die area target: ~240 mm'' @ [CHR 0xC2, CHR 0xB2]]"

text \<open>Worlds after construction in which the timing report is a file with a given text, or a directory.\<close>

definition world_timing :: "node \<Rightarrow> world" where
  "world_timing n = world2\<lparr>fs := fs2(Path True [''proj'', ''reports'', ''timing_report.txt''] \<mapsto> n)\<rparr>"

text \<open>
  The log file and the command line of \<^verbatim>\<open>run_synthesis\<close>, the file system on which the
  child is started (the script written, the log truncated), and what one call of
  \<^verbatim>\<open>run_synthesis\<close> prints.
\<close>

definition log_path_of :: "VixenSynthesisFlow \<Rightarrow> path" where
  "log_path_of self = joinpath (logs_dir self) ''synthesis.log''"

definition openroad_command :: "VixenSynthesisFlow \<Rightarrow> string" where
  "openroad_command self = ''openroad -no_splash '' @ str_path (script_path_of self)"

definition fs_at_launch :: "VixenSynthesisFlow \<Rightarrow> world \<Rightarrow> filesystem" where
  "fs_at_launch self w =
     (fs w)(script_path_of self \<mapsto> File (tcl_script_text self), log_path_of self \<mapsto> File [])"

definition synthesis_lines :: "VixenSynthesisFlow \<Rightarrow> world \<Rightarrow> string list" where
  "synthesis_lines self w = drop (length (console w)) (console (snd (run_synthesis self w)))"

text \<open>
  Worlds after construction in \<^verbatim>\<open>/proj\<close>: one in which the tool exits with status 1, one in
  which no child can be started, and one in which \<^verbatim>\<open>logs/synthesis.log\<close> is a directory.
\<close>

definition world_tool_fails :: world where
  "world_tool_fails = world2\<lparr>shell := (\<lambda>command cwd f. Inr (1, ''[ERROR] cannot read LEF'', f))\<rparr>"

definition world_no_shell :: world where
  "world_no_shell = world2\<lparr>shell := (\<lambda>command cwd f. Inl OSError)\<rparr>"

definition world_log_is_dir :: world where
  "world_log_is_dir = world2\<lparr>fs := fs2(Path True [''proj'', ''logs'', ''synthesis.log''] \<mapsto> Dir)\<rparr>"

text \<open>What one call of \<^verbatim>\<open>check_prerequisites\<close> prints.\<close>

definition prerequisite_lines :: "VixenSynthesisFlow \<Rightarrow> world \<Rightarrow> string list" where
  "prerequisite_lines self w = drop (length (console w)) (console (snd (check_prerequisites self w)))"

text \<open>A machine on which only \<^verbatim>\<open>openroad\<close> is installed, before and after construction in \<^verbatim>\<open>/proj\<close>.\<close>

definition shell_openroad_only :: "string \<Rightarrow> path \<Rightarrow> filesystem \<Rightarrow> exn + (int \<times> string \<times> filesystem)" where
  "shell_openroad_only command cwd f =
     (if command = ''which openroad'' then Inr (0, ''/usr/local/bin/openroad'', f)
      else if command = ''which yosys'' \<or> command = ''which klayout'' then Inr (1, [], f)
      else Inr (127, ''sh: command not found'', f))"

definition world0_openroad_only :: world where
  "world0_openroad_only = world0\<lparr>shell := shell_openroad_only\<rparr>"

definition world2_openroad_only :: world where
  "world2_openroad_only = world2\<lparr>shell := shell_openroad_only\<rparr>"

text \<open>
  The script started by a relative path, as \<^verbatim>\<open>python3 scripts/vixen_synthesis.py\<close> from
  the project root: the project root is then the empty relative path \<^verbatim>\<open>.\<close>.
\<close>

definition file_rel :: path where
  "file_rel = Path False [''scripts'', ''vixen_synthesis.py'']"

text \<open>
  A project root whose only component contains double quotes and a newline:
  \<^verbatim>\<open>/results"\<close>, a newline, \<^verbatim>\<open>set reports_dir "\<close>.
\<close>

definition file_quote :: path where
  "file_quote =
     Path True [''results'' @ [CHR 0x22] @ ''\<newline>set reports_dir '' @ [CHR 0x22],
                ''scripts'', ''vixen_synthesis.py'']"

text \<open>The fixed text of the script before the first substitution and after the last one.\<close>

definition script_head :: string where
  "script_head = ''\<newline>'' @ unlines tcl_header @ ''source ''"

definition script_tail :: string where
  "script_tail = ''\<newline>'' @ unlines tcl_flow"

text \<open>The text that \<^verbatim>\<open>str\<close> puts in front of a name joined to the absolute path with the given components.\<close>

definition root_text :: "string list \<Rightarrow> string" where
  "root_text ps = (if ps = [] then [] else ''/'' @ join ''/'' ps)"

text \<open>
  The exit statuses of the probes \<^verbatim>\<open>which tool\<close> for a list of tools, run one after the
  other in a working directory, each on the file system that the one before it left; an
  error in starting one of them ends the sequence.
\<close>

fun probe_statuses ::
    "(string \<Rightarrow> path \<Rightarrow> filesystem \<Rightarrow> exn + (int \<times> string \<times> filesystem))
      \<Rightarrow> path \<Rightarrow> filesystem \<Rightarrow> string list \<Rightarrow> exn + int list" where
  "probe_statuses sh cwd f [] = Inr []"
| "probe_statuses sh cwd f (tool # rest) =
     (case sh (''which '' @ tool) cwd f of
        Inl e \<Rightarrow> Inl e
      | Inr (rc, out, f') \<Rightarrow>
          (case probe_statuses sh cwd f' rest of
             Inl e \<Rightarrow> Inl e
           | Inr rcs \<Rightarrow> Inr (rc # rcs)))"

text \<open>The tools whose probe did not exit with status 0, in the order of the list.\<close>

definition failed_probes :: "string list \<Rightarrow> int list \<Rightarrow> string list" where
  "failed_probes ts rcs = map fst (filter (\<lambda>(t, rc). rc \<noteq> 0) (zip ts rcs))"

text \<open>
  What the spec means by a tool that resolves on the search path: one of the directories
  of the path holds a file of that name.
\<close>

definition resolves_on :: "path list \<Rightarrow> filesystem \<Rightarrow> string \<Rightarrow> bool" where
  "resolves_on search_path f tool =
     list_ex (\<lambda>d. case f (joinpath d tool) of Some (File c) \<Rightarrow> True | _ \<Rightarrow> False) search_path"

text \<open>
  A machine after construction in \<^verbatim>\<open>/proj\<close> on which the three tools are installed in
  \<^verbatim>\<open>/usr/bin\<close>, which is the search path, but on which there is no \<^verbatim>\<open>which\<close>: the shell
  answers every probe with status 127.
\<close>

definition fs_tools_installed :: filesystem where
  "fs_tools_installed =
     fs2(Path True [''usr''] \<mapsto> Dir, Path True [''usr'', ''bin''] \<mapsto> Dir,
         Path True [''usr'', ''bin'', ''openroad''] \<mapsto> File ''ELF'',
         Path True [''usr'', ''bin'', ''yosys''] \<mapsto> File ''ELF'',
         Path True [''usr'', ''bin'', ''klayout''] \<mapsto> File ''ELF'')"

definition world_no_which :: world where
  "world_no_which =
     world2\<lparr>fs := fs_tools_installed,
            shell := (\<lambda>command cwd f. Inr (127, ''/bin/sh: 1: which: not found'', f))\<rparr>"

section \<open>Properties\<close>

subsection \<open>Paths and directories\<close>

lemma parent_joinpath: "parent (joinpath p n) = p"
  by (cases p) simp

lemma joinpath_neq: "joinpath p n \<noteq> p"
  by (cases p) simp

lemma joinpath_inj: "joinpath p n = joinpath p m \<longleftrightarrow> n = m"
  by (cases p) simp

lemma new_flow_fields:
  "project_root (new_flow file) = parent (parent file)"
  "config_file (new_flow file) = joinpath (joinpath (parent (parent file)) ''config'') ''openroad_config.tcl''"
  "results_dir (new_flow file) = joinpath (parent (parent file)) ''results''"
  "reports_dir (new_flow file) = joinpath (parent (parent file)) ''reports''"
  "logs_dir (new_flow file) = joinpath (parent (parent file)) ''logs''"
  by (simp_all add: new_flow_def Let_def)

lemma mkdir_cases:
  "mkdir (joinpath r n) w =
     (if fs w r = Some Dir \<and> fs w (joinpath r n) \<in> {None, Some Dir}
      then (Inr (), w\<lparr>fs := (fs w)(joinpath r n \<mapsto> Dir)\<rparr>)
      else (Inl (case fs w r of None \<Rightarrow> FileNotFoundError
                 | Some Dir \<Rightarrow> FileExistsError
                 | Some (File c) \<Rightarrow> NotADirectoryError), w))"
  by (auto simp: mkdir_def parent_joinpath fun_upd_idem split: option.splits node.splits)

lemma mkdir_Inr_iff:
  "mkdir (joinpath r n) w = (Inr u, w1) \<longleftrightarrow>
     fs w r = Some Dir \<and> creatable (fs w) (joinpath r n)
     \<and> w1 = w\<lparr>fs := (fs w)(joinpath r n \<mapsto> Dir)\<rparr>"
  unfolding mkdir_cases creatable_def by (cases "fs w r = Some Dir") auto

lemma init_success:
  "init file w = (Inr self, w1) \<longleftrightarrow>
     fs w (project_root (new_flow file)) = Some Dir
     \<and> creatable (fs w) (results_dir (new_flow file))
     \<and> creatable (fs w) (reports_dir (new_flow file))
     \<and> creatable (fs w) (logs_dir (new_flow file))
     \<and> self = new_flow file
     \<and> w1 = w\<lparr>fs := (fs w)(results_dir (new_flow file) \<mapsto> Dir,
                           reports_dir (new_flow file) \<mapsto> Dir,
                           logs_dir (new_flow file) \<mapsto> Dir)\<rparr>"
  (is "?lhs \<longleftrightarrow> ?rhs")
proof -
  define r where "r = parent (parent file)"
  define res where "res = joinpath r ''results''"
  define rep where "rep = joinpath r ''reports''"
  define lgs where "lgs = joinpath r ''logs''"
  have fields: "project_root (new_flow file) = r" "results_dir (new_flow file) = res"
    "reports_dir (new_flow file) = rep" "logs_dir (new_flow file) = lgs"
    by (simp_all add: new_flow_fields r_def res_def rep_def lgs_def)
  have neq: "res \<noteq> r" "rep \<noteq> r" "lgs \<noteq> r" "res \<noteq> rep" "res \<noteq> lgs" "rep \<noteq> lgs"
    by (simp_all add: res_def rep_def lgs_def joinpath_neq joinpath_inj)
  define wa where "wa = w\<lparr>fs := (fs w)(res \<mapsto> Dir)\<rparr>"
  define wb where "wb = wa\<lparr>fs := (fs wa)(rep \<mapsto> Dir)\<rparr>"
  define wc where "wc = wb\<lparr>fs := (fs wb)(lgs \<mapsto> Dir)\<rparr>"
  have m1: "\<And>u x. mkdir res w = (Inr u, x) \<longleftrightarrow> fs w r = Some Dir \<and> creatable (fs w) res \<and> x = wa"
    unfolding res_def wa_def by (rule mkdir_Inr_iff)
  have m2: "\<And>u x. mkdir rep wa = (Inr u, x) \<longleftrightarrow> fs wa r = Some Dir \<and> creatable (fs wa) rep \<and> x = wb"
    unfolding rep_def wb_def by (rule mkdir_Inr_iff)
  have m3: "\<And>u x. mkdir lgs wb = (Inr u, x) \<longleftrightarrow> fs wb r = Some Dir \<and> creatable (fs wb) lgs \<and> x = wc"
    unfolding lgs_def wc_def by (rule mkdir_Inr_iff)
  have fa: "fs wa r = fs w r" "creatable (fs wa) rep = creatable (fs w) rep"
    using neq by (simp_all add: wa_def creatable_def)
  have fb: "fs wb r = fs w r" "creatable (fs wb) lgs = creatable (fs w) lgs"
    using neq by (simp_all add: wb_def wa_def creatable_def)
  have wc_eq: "wc = w\<lparr>fs := (fs w)(res \<mapsto> Dir, rep \<mapsto> Dir, lgs \<mapsto> Dir)\<rparr>"
    by (simp add: wc_def wb_def wa_def)
  have unf: "init file w =
     (case mkdir res w of (Inl e, w1) \<Rightarrow> (Inl e, w1)
      | (Inr u, w1) \<Rightarrow> (case mkdir rep w1 of (Inl e, w2) \<Rightarrow> (Inl e, w2)
          | (Inr u, w2) \<Rightarrow> (case mkdir lgs w2 of (Inl e, w3) \<Rightarrow> (Inl e, w3)
              | (Inr u, w3) \<Rightarrow> (Inr (new_flow file), w3))))"
    by (simp add: init_def fields Let_def split: prod.splits sum.splits)
  have "?lhs \<longleftrightarrow> fs w r = Some Dir \<and> creatable (fs w) res \<and> creatable (fs w) rep
      \<and> creatable (fs w) lgs \<and> self = new_flow file \<and> w1 = wc"
  proof
    assume L: ?lhs
    from L obtain u1 x1 where A: "mkdir res w = (Inr u1, x1)"
      unfolding unf by (cases "mkdir res w") (auto split: sum.splits)
    then have x1: "x1 = wa" and c1: "fs w r = Some Dir" "creatable (fs w) res" by (simp_all add: m1)
    from L A x1 obtain u2 x2 where B: "mkdir rep wa = (Inr u2, x2)"
      unfolding unf by (cases "mkdir rep wa") (auto split: sum.splits)
    then have x2: "x2 = wb" and c2: "creatable (fs w) rep" by (simp_all add: m2 fa)
    from L A x1 B x2 obtain u3 x3 where C: "mkdir lgs wb = (Inr u3, x3)"
      unfolding unf by (cases "mkdir lgs wb") (auto split: sum.splits)
    then have x3: "x3 = wc" and c3: "creatable (fs w) lgs" by (simp_all add: m3 fb)
    from L A x1 B x2 C x3 have "self = new_flow file" "w1 = wc" unfolding unf by auto
    with c1 c2 c3 show "fs w r = Some Dir \<and> creatable (fs w) res \<and> creatable (fs w) rep
      \<and> creatable (fs w) lgs \<and> self = new_flow file \<and> w1 = wc" by simp
  next
    assume R: "fs w r = Some Dir \<and> creatable (fs w) res \<and> creatable (fs w) rep
      \<and> creatable (fs w) lgs \<and> self = new_flow file \<and> w1 = wc"
    then have "mkdir res w = (Inr (), wa)" "mkdir rep wa = (Inr (), wb)" "mkdir lgs wb = (Inr (), wc)"
      by (simp_all add: m1 m2 m3 fa fb)
    with R show ?lhs unfolding unf by simp
  qed
  then show ?thesis
    unfolding wc_eq fields .
qed

lemma init_fs_after:
  assumes "init file w = (Inr self, w1)"
  shows "fs w1 p = (if p \<in> {results_dir self, reports_dir self, logs_dir self} then Some Dir else fs w p)"
    and "console w1 = console w" and "commands w1 = commands w" and "shell w1 = shell w"
    and "duration_text w1 = duration_text w"
  using assms unfolding init_success by auto

subsection \<open>Construction\<close>

text \<open>
  C8. Constructing the orchestrator on a project root that is a directory and lacks
  \<^verbatim>\<open>results/\<close>, \<^verbatim>\<open>reports/\<close> and \<^verbatim>\<open>logs/\<close> succeeds and changes the world in exactly one
  way: those three paths become directories. Construction is idempotent: whenever a
  construction has succeeded, constructing again on the world it left succeeds with the
  same orchestrator and leaves that world as it is.
\<close>

theorem init_creates_three_idempotent:
  "(fs w (project_root (new_flow file)) = Some Dir
      \<and> fs w (results_dir (new_flow file)) = None
      \<and> fs w (reports_dir (new_flow file)) = None
      \<and> fs w (logs_dir (new_flow file)) = None
    \<longrightarrow> init file w =
          (Inr (new_flow file),
           w\<lparr>fs := (fs w)(results_dir (new_flow file) \<mapsto> Dir,
                           reports_dir (new_flow file) \<mapsto> Dir,
                           logs_dir (new_flow file) \<mapsto> Dir)\<rparr>))
   \<and> (init file w = (Inr self, w1) \<longrightarrow> init file w1 = (Inr self, w1))"
proof (intro conjI impI)
  assume "fs w (project_root (new_flow file)) = Some Dir
      \<and> fs w (results_dir (new_flow file)) = None
      \<and> fs w (reports_dir (new_flow file)) = None
      \<and> fs w (logs_dir (new_flow file)) = None"
  then show "init file w =
          (Inr (new_flow file),
           w\<lparr>fs := (fs w)(results_dir (new_flow file) \<mapsto> Dir,
                           reports_dir (new_flow file) \<mapsto> Dir,
                           logs_dir (new_flow file) \<mapsto> Dir)\<rparr>)"
    by (simp add: init_success creatable_def)
next
  assume first: "init file w = (Inr self, w1)"
  have neq: "results_dir (new_flow file) \<noteq> project_root (new_flow file)"
    "reports_dir (new_flow file) \<noteq> project_root (new_flow file)"
    "logs_dir (new_flow file) \<noteq> project_root (new_flow file)"
    by (simp_all add: new_flow_fields joinpath_neq)
  from first have self: "self = new_flow file" and root: "fs w (project_root (new_flow file)) = Some Dir"
    by (simp_all add: init_success)
  have after: "\<And>p. fs w1 p = (if p \<in> {results_dir self, reports_dir self, logs_dir self} then Some Dir else fs w p)"
    by (rule init_fs_after(1)[OF first])
  have same: "(fs w1)(results_dir self \<mapsto> Dir, reports_dir self \<mapsto> Dir, logs_dir self \<mapsto> Dir) = fs w1"
    by (rule ext) (simp add: after)
  have "w1\<lparr>fs := (fs w1)(results_dir self \<mapsto> Dir, reports_dir self \<mapsto> Dir, logs_dir self \<mapsto> Dir)\<rparr> = w1"
    unfolding same by simp
  moreover have "fs w1 (project_root self) = Some Dir"
    using neq root by (simp add: after self)
  moreover have "creatable (fs w1) (results_dir self)" "creatable (fs w1) (reports_dir self)"
    "creatable (fs w1) (logs_dir self)"
    by (simp_all add: after creatable_def)
  ultimately show "init file w1 = (Inr self, w1)"
    unfolding init_success[where w = w1] self by simp
qed


theorem init_creates_three_idempotent_witness:
  "fs world0 (project_root (new_flow file0)) = Some Dir
   \<and> fs world0 (results_dir (new_flow file0)) = None
   \<and> fs world0 (reports_dir (new_flow file0)) = None
   \<and> fs world0 (logs_dir (new_flow file0)) = None
   \<and> init file0 world0 =
        (Inr (new_flow file0),
         world0\<lparr>fs := fs0(Path True [''proj'', ''results''] \<mapsto> Dir,
                          Path True [''proj'', ''reports''] \<mapsto> Dir,
                          Path True [''proj'', ''logs''] \<mapsto> Dir)\<rparr>)
   \<and> init file0
        (world0\<lparr>fs := fs0(Path True [''proj'', ''results''] \<mapsto> Dir,
                          Path True [''proj'', ''reports''] \<mapsto> Dir,
                          Path True [''proj'', ''logs''] \<mapsto> Dir)\<rparr>) =
        (Inr (new_flow file0),
         world0\<lparr>fs := fs0(Path True [''proj'', ''results''] \<mapsto> Dir,
                          Path True [''proj'', ''reports''] \<mapsto> Dir,
                          Path True [''proj'', ''logs''] \<mapsto> Dir)\<rparr>)"
proof -
  have h: "fs world0 (project_root (new_flow file0)) = Some Dir
     \<and> fs world0 (results_dir (new_flow file0)) = None
     \<and> fs world0 (reports_dir (new_flow file0)) = None
     \<and> fs world0 (logs_dir (new_flow file0)) = None"
    by (simp add: world0_def fs0_def file0_def new_flow_fields)
  have paths: "results_dir (new_flow file0) = Path True [''proj'', ''results'']"
    "reports_dir (new_flow file0) = Path True [''proj'', ''reports'']"
    "logs_dir (new_flow file0) = Path True [''proj'', ''logs'']"
    by (simp_all add: file0_def new_flow_fields)
  have w: "fs world0 = fs0" by (simp add: world0_def)
  from init_creates_three_idempotent [of world0 file0] h
  have first: "init file0 world0 =
        (Inr (new_flow file0),
         world0\<lparr>fs := fs0(Path True [''proj'', ''results''] \<mapsto> Dir,
                          Path True [''proj'', ''reports''] \<mapsto> Dir,
                          Path True [''proj'', ''logs''] \<mapsto> Dir)\<rparr>)"
    unfolding paths w by blast
  from init_creates_three_idempotent [of world0 file0] first
  have "init file0
        (world0\<lparr>fs := fs0(Path True [''proj'', ''results''] \<mapsto> Dir,
                          Path True [''proj'', ''reports''] \<mapsto> Dir,
                          Path True [''proj'', ''logs''] \<mapsto> Dir)\<rparr>) =
        (Inr (new_flow file0),
         world0\<lparr>fs := fs0(Path True [''proj'', ''results''] \<mapsto> Dir,
                          Path True [''proj'', ''reports''] \<mapsto> Dir,
                          Path True [''proj'', ''logs''] \<mapsto> Dir)\<rparr>)"
    by blast
  with h first show ?thesis by blast
qed

lemma open_w_missing_dir:
  "fs w (parent p) = None \<Longrightarrow> open_w p w = (Inl FileNotFoundError, w)"
  by (simp add: open_w_def)

lemma generate_missing_dir:
  "fs w (scripts_dir self) = None \<Longrightarrow> generate_tcl_script self w = (Inl FileNotFoundError, w)"
  by (simp add: generate_tcl_script_def script_path_of_def scripts_dir_def open_w_missing_dir parent_joinpath)

lemma print_fields [simp]:
  "fs (print s w) = fs w" "commands (print s w) = commands w" "shell (print s w) = shell w"
  "duration_text (print s w) = duration_text w" "console (print s w) = console w @ [s]"
  by (simp_all add: print_def)

text \<open>
  Against C3 as stated: after a successful construction in \<^verbatim>\<open>/proj\<close>, which has no
  \<^verbatim>\<open>config/\<close>, there still is no \<^verbatim>\<open>/proj/config\<close>.
\<close>

theorem init_leaves_config_absent:
  "fst (init file0 world0) = Inr (new_flow file0)
   \<and> \<not> exists (config_dir (new_flow file0)) (snd (init file0 world0))"
proof -
  have "init file0 world0 =
      (Inr (new_flow file0),
       world0\<lparr>fs := (fs world0)(results_dir (new_flow file0) \<mapsto> Dir,
                                reports_dir (new_flow file0) \<mapsto> Dir,
                                logs_dir (new_flow file0) \<mapsto> Dir)\<rparr>)"
    unfolding init_success
    by (simp add: world0_def fs0_def file0_def new_flow_fields creatable_def)
  then show ?thesis
    by (simp add: exists_def config_dir_def world0_def fs0_def file0_def new_flow_fields)
qed

text \<open>
  C3, amended. Construction computes, from the project root, the three directory paths
  \<^verbatim>\<open>results\<close>, \<^verbatim>\<open>reports\<close>, \<^verbatim>\<open>logs\<close> and the path \<^verbatim>\<open>config/openroad_config.tcl\<close>. Whenever
  it succeeds, the three directories exist afterwards. It neither creates nor checks
  \<^verbatim>\<open>config/\<close> or the configuration file: they are afterwards what they were before.
\<close>

theorem init_creates_results_reports_logs:
  assumes "init file w = (Inr self, w1)"
  shows "results_dir self = joinpath (project_root self) ''results''
       \<and> reports_dir self = joinpath (project_root self) ''reports''
       \<and> logs_dir self = joinpath (project_root self) ''logs''
       \<and> config_file self = joinpath (config_dir self) ''openroad_config.tcl''
       \<and> fs w1 (results_dir self) = Some Dir
       \<and> fs w1 (reports_dir self) = Some Dir
       \<and> fs w1 (logs_dir self) = Some Dir
       \<and> fs w1 (config_dir self) = fs w (config_dir self)
       \<and> fs w1 (config_file self) = fs w (config_file self)"
proof -
  from assms have self: "self = new_flow file" by (simp add: init_success)
  have after: "\<And>p. fs w1 p = (if p \<in> {results_dir self, reports_dir self, logs_dir self} then Some Dir else fs w p)"
    by (rule init_fs_after(1)[OF assms])
  have neq: "config_dir self \<notin> {results_dir self, reports_dir self, logs_dir self}"
    "config_file self \<notin> {results_dir self, reports_dir self, logs_dir self}"
    unfolding self config_dir_def new_flow_fields
    by (cases "parent (parent file)", simp)+
  show ?thesis
    using neq by (simp add: after) (simp add: self new_flow_fields config_dir_def)
qed

theorem init_creates_results_reports_logs_witness:
  "init file0 world0 = (Inr (new_flow file0), snd (init file0 world0))
   \<and> fs (snd (init file0 world0)) (Path True [''proj'', ''results'']) = Some Dir
   \<and> fs (snd (init file0 world0)) (Path True [''proj'', ''reports'']) = Some Dir
   \<and> fs (snd (init file0 world0)) (Path True [''proj'', ''logs'']) = Some Dir
   \<and> fs (snd (init file0 world0)) (Path True [''proj'', ''config'']) = None"
proof -
  have ok: "init file0 world0 = (Inr (new_flow file0), snd (init file0 world0))"
    unfolding init_success
    by (simp add: world0_def fs0_def file0_def new_flow_fields creatable_def init_def Let_def mkdir_def)
  have paths: "results_dir (new_flow file0) = Path True [''proj'', ''results'']"
    "reports_dir (new_flow file0) = Path True [''proj'', ''reports'']"
    "logs_dir (new_flow file0) = Path True [''proj'', ''logs'']"
    "config_dir (new_flow file0) = Path True [''proj'', ''config'']"
    by (simp_all add: file0_def new_flow_fields config_dir_def)
  have "fs world0 (Path True [''proj'', ''config'']) = None"
    by (simp add: world0_def fs0_def file0_def)
  moreover from init_creates_results_reports_logs [OF ok]
  have "fs (snd (init file0 world0)) (results_dir (new_flow file0)) = Some Dir"
    "fs (snd (init file0 world0)) (reports_dir (new_flow file0)) = Some Dir"
    "fs (snd (init file0 world0)) (logs_dir (new_flow file0)) = Some Dir"
    "fs (snd (init file0 world0)) (config_dir (new_flow file0)) = fs world0 (config_dir (new_flow file0))"
    by blast+
  ultimately show ?thesis
    using ok by (simp add: paths)
qed

text \<open>
  C10. Take any project root in which \<^verbatim>\<open>scripts/\<close> is absent. Construction does not
  need it: it succeeds as soon as the root is a directory and none of \<^verbatim>\<open>results\<close>,
  \<^verbatim>\<open>reports\<close>, \<^verbatim>\<open>logs\<close> is occupied by a non-directory. And whenever construction
  succeeds, \<^verbatim>\<open>scripts/\<close> is still absent, \<^verbatim>\<open>generate_tcl_script\<close> raises
  \<^verbatim>\<open>FileNotFoundError\<close> when it opens its output file, and \<^verbatim>\<open>run_synthesis\<close> lets that
  exception through.
\<close>

theorem generate_raises_without_scripts:
  assumes "fs w (scripts_dir (new_flow file)) = None"
  shows "(fs w (project_root (new_flow file)) = Some Dir
          \<and> creatable (fs w) (results_dir (new_flow file))
          \<and> creatable (fs w) (reports_dir (new_flow file))
          \<and> creatable (fs w) (logs_dir (new_flow file))
          \<longrightarrow> (\<exists>w1. init file w = (Inr (new_flow file), w1)))
       \<and> (\<forall>self w1. init file w = (Inr self, w1) \<longrightarrow>
             fs w1 (scripts_dir self) = None
             \<and> generate_tcl_script self w1 = (Inl FileNotFoundError, w1)
             \<and> fst (run_synthesis self w1) = Inl FileNotFoundError)"
proof (intro conjI allI impI)
  assume "fs w (project_root (new_flow file)) = Some Dir
          \<and> creatable (fs w) (results_dir (new_flow file))
          \<and> creatable (fs w) (reports_dir (new_flow file))
          \<and> creatable (fs w) (logs_dir (new_flow file))"
  then show "\<exists>w1. init file w = (Inr (new_flow file), w1)"
    by (simp add: init_success)
next
  fix self w1
  assume ok: "init file w = (Inr self, w1)"
  then have self: "self = new_flow file" by (simp add: init_success)
  have after: "\<And>p. fs w1 p = (if p \<in> {results_dir self, reports_dir self, logs_dir self} then Some Dir else fs w p)"
    by (rule init_fs_after(1)[OF ok])
  have neq: "scripts_dir self \<notin> {results_dir self, reports_dir self, logs_dir self}"
    unfolding self scripts_dir_def new_flow_fields
    by (cases "parent (parent file)") simp
  show absent: "fs w1 (scripts_dir self) = None"
    using neq assms by (simp add: after self)
  show "generate_tcl_script self w1 = (Inl FileNotFoundError, w1)"
    by (rule generate_missing_dir [OF absent])
  have "fs (print rule70 (print ''Starting Vixen Dio Pro Synthesis Flow'' (print rule70 w1))) (scripts_dir self) = None"
    using absent by simp
  then show "fst (run_synthesis self w1) = Inl FileNotFoundError"
    by (simp add: run_synthesis_def Let_def generate_missing_dir)
qed

theorem generate_raises_without_scripts_witness:
  "fs world1 (scripts_dir (new_flow file1)) = None
   \<and> fs world1 (project_root (new_flow file1)) = Some Dir
   \<and> creatable (fs world1) (results_dir (new_flow file1))
   \<and> creatable (fs world1) (reports_dir (new_flow file1))
   \<and> creatable (fs world1) (logs_dir (new_flow file1))
   \<and> init file1 world1 = (Inr (new_flow file1), snd (init file1 world1))
   \<and> generate_tcl_script (new_flow file1) (snd (init file1 world1))
       = (Inl FileNotFoundError, snd (init file1 world1))
   \<and> fst (run_synthesis (new_flow file1) (snd (init file1 world1))) = Inl FileNotFoundError"
proof -
  have h: "fs world1 (scripts_dir (new_flow file1)) = None"
    by (simp add: world1_def fs1_def file1_def scripts_dir_def new_flow_fields)
  have c: "fs world1 (project_root (new_flow file1)) = Some Dir
          \<and> creatable (fs world1) (results_dir (new_flow file1))
          \<and> creatable (fs world1) (reports_dir (new_flow file1))
          \<and> creatable (fs world1) (logs_dir (new_flow file1))"
    by (simp add: world1_def fs1_def file1_def new_flow_fields creatable_def)
  from generate_raises_without_scripts [OF h] c
  obtain w1 where ok: "init file1 world1 = (Inr (new_flow file1), w1)" by blast
  then have ok': "init file1 world1 = (Inr (new_flow file1), snd (init file1 world1))" by simp
  from generate_raises_without_scripts [OF h] ok'
  have "generate_tcl_script (new_flow file1) (snd (init file1 world1))
       = (Inl FileNotFoundError, snd (init file1 world1))
   \<and> fst (run_synthesis (new_flow file1) (snd (init file1 world1))) = Inl FileNotFoundError"
    by blast
  with h c ok' show ?thesis by blast
qed

subsection \<open>Script generation\<close>

lemma open_w_ok:
  "fs w (parent p) = Some Dir \<Longrightarrow> fs w p \<noteq> Some Dir \<Longrightarrow>
     open_w p w = (Inr (), w\<lparr>fs := (fs w)(p \<mapsto> File [])\<rparr>)"
  by (auto simp: open_w_def split: option.splits node.splits)

lemma open_w_Inr:
  "open_w p w = (Inr u, w') \<Longrightarrow>
     fs w (parent p) = Some Dir \<and> fs w p \<noteq> Some Dir \<and> w' = w\<lparr>fs := (fs w)(p \<mapsto> File [])\<rparr>"
  by (auto simp: open_w_def split: option.splits node.splits)

lemma open_w_fail:
  "fs w (parent p) \<noteq> Some Dir \<or> fs w p = Some Dir \<Longrightarrow> \<exists>e. open_w p w = (Inl e, w)"
  by (auto simp: open_w_def split: option.splits node.splits)

lemma parent_script_path: "parent (script_path_of self) = scripts_dir self"
  by (simp add: script_path_of_def scripts_dir_def parent_joinpath)

lemma generate_ok:
  "fs w (scripts_dir self) = Some Dir \<Longrightarrow> fs w (script_path_of self) \<noteq> Some Dir \<Longrightarrow>
     generate_tcl_script self w =
       (Inr (script_path_of self), w\<lparr>fs := (fs w)(script_path_of self \<mapsto> File (tcl_script_text self))\<rparr>)"
  by (simp add: generate_tcl_script_def Let_def open_w_ok parent_script_path write_fd_def)

lemma generate_Inr:
  assumes "generate_tcl_script self w = (Inr p, w')"
  shows "p = script_path_of self" and "fs w' p = Some (File (tcl_script_text self))"
proof -
  from assms obtain u w1 where o: "open_w (script_path_of self) w = (Inr u, w1)"
    and r: "p = script_path_of self" "w' = write_fd (script_path_of self) (tcl_script_text self) w1"
    by (auto simp: generate_tcl_script_def Let_def split: prod.splits sum.splits)
  show "p = script_path_of self" by (rule r(1))
  show "fs w' p = Some (File (tcl_script_text self))" by (simp add: r write_fd_def)
qed

text \<open>
  C5. The text of the generated script is a function of the configuration-file path and
  the three directory paths alone: two orchestrators that agree on these four paths
  produce the same text, and whatever the two worlds are in which they generate (their
  files, their consoles, their clocks), each successful generation leaves exactly that
  text in the file whose path it returns.
\<close>

theorem tcl_script_deterministic:
  assumes "config_file a = config_file b" and "results_dir a = results_dir b"
    and "reports_dir a = reports_dir b" and "logs_dir a = logs_dir b"
  shows "tcl_script_text a = tcl_script_text b
       \<and> (\<forall>wa wb pa pb wa' wb'.
             generate_tcl_script a wa = (Inr pa, wa') \<and> generate_tcl_script b wb = (Inr pb, wb')
             \<longrightarrow> fs wa' pa = Some (File (tcl_script_text a))
                 \<and> fs wb' pb = Some (File (tcl_script_text a)))"
proof -
  have same: "tcl_script_text a = tcl_script_text b"
    by (simp add: tcl_script_text_def assms)
  show ?thesis
  proof (intro conjI allI impI)
    show "tcl_script_text a = tcl_script_text b" by (rule same)
  next
    fix wa wb pa pb wa' wb'
    assume g: "generate_tcl_script a wa = (Inr pa, wa') \<and> generate_tcl_script b wb = (Inr pb, wb')"
    then have ga: "generate_tcl_script a wa = (Inr pa, wa')"
      and gb: "generate_tcl_script b wb = (Inr pb, wb')" by simp_all
    show "fs wa' pa = Some (File (tcl_script_text a))"
      by (rule generate_Inr(2) [OF ga])
    show "fs wb' pb = Some (File (tcl_script_text a))"
      using generate_Inr(2) [OF gb] by (simp add: same)
  qed
qed

theorem tcl_script_deterministic_witness:
  "generate_tcl_script (new_flow file0) world2
     = (Inr (script_path_of (new_flow file0)),
        world2\<lparr>fs := fs2(script_path_of (new_flow file0) \<mapsto> File (tcl_script_text (new_flow file0)))\<rparr>)
   \<and> generate_tcl_script (new_flow file0) world2_later
     = (Inr (script_path_of (new_flow file0)),
        world2_later\<lparr>fs := fs2(script_path_of (new_flow file0) \<mapsto> File (tcl_script_text (new_flow file0)))\<rparr>)
   \<and> fs (snd (generate_tcl_script (new_flow file0) world2)) (script_path_of (new_flow file0))
       = Some (File (tcl_script_text (new_flow file0)))
   \<and> fs (snd (generate_tcl_script (new_flow file0) world2_later)) (script_path_of (new_flow file0))
       = Some (File (tcl_script_text (new_flow file0)))"
proof -
  have d: "fs world2 (scripts_dir (new_flow file0)) = Some Dir"
    "fs world2 (script_path_of (new_flow file0)) \<noteq> Some Dir"
    "fs world2_later (scripts_dir (new_flow file0)) = Some Dir"
    "fs world2_later (script_path_of (new_flow file0)) \<noteq> Some Dir"
    by (simp_all add: world2_later_def world2_def fs2_def world0_def fs0_def file0_def scripts_dir_def
        script_path_of_def new_flow_fields)
  have f: "fs world2 = fs2" "fs world2_later = fs2"
    by (simp_all add: world2_later_def world2_def)
  have g1: "generate_tcl_script (new_flow file0) world2
     = (Inr (script_path_of (new_flow file0)),
        world2\<lparr>fs := fs2(script_path_of (new_flow file0) \<mapsto> File (tcl_script_text (new_flow file0)))\<rparr>)"
    using generate_ok [OF d(1) d(2)] by (simp add: f)
  have g2: "generate_tcl_script (new_flow file0) world2_later
     = (Inr (script_path_of (new_flow file0)),
        world2_later\<lparr>fs := fs2(script_path_of (new_flow file0) \<mapsto> File (tcl_script_text (new_flow file0)))\<rparr>)"
    using generate_ok [OF d(3) d(4)] by (simp add: f)
  from tcl_script_deterministic [of "new_flow file0" "new_flow file0"] g1 g2
  have "fs (world2\<lparr>fs := fs2(script_path_of (new_flow file0) \<mapsto> File (tcl_script_text (new_flow file0)))\<rparr>)
           (script_path_of (new_flow file0)) = Some (File (tcl_script_text (new_flow file0)))
      \<and> fs (world2_later\<lparr>fs := fs2(script_path_of (new_flow file0) \<mapsto> File (tcl_script_text (new_flow file0)))\<rparr>)
           (script_path_of (new_flow file0)) = Some (File (tcl_script_text (new_flow file0)))"
    by blast
  with g1 g2 show ?thesis by simp
qed

subsection \<open>The summary\<close>

lemma timing_lines_cases:
  "timing_lines self w =
     (case fs w (timing_report_of self) of
        None \<Rightarrow> []
      | Some Dir \<Rightarrow> [''Timing Analysis:'', ''  - Timing report available but could not be parsed'']
      | Some (File content) \<Rightarrow>
          [''Timing Analysis:'',
           if contains ''slack'' (lower content) then ''  - Timing report generated''
           else ''  - Check timing report for detailed analysis''])"
  by (simp add: timing_lines_def summary_timing_def timing_report_of_def exists_def read_text_def Let_def
      split: option.splits node.splits)

lemma summary_timing_fields [simp]:
  "fs (summary_timing self w) = fs w"
  "console (summary_timing self w) = console w @ timing_lines self w"
  by (simp_all add: timing_lines_def summary_timing_def exists_def read_text_def Let_def
      split: option.splits node.splits sum.splits)

lemma summary_area_power_fields:
  "fs (summary_area_power self w) = fs w"
  "console (summary_area_power self w) = console w
     @ (if fs w (joinpath (reports_dir self) ''area_report.txt'') \<noteq> None
        then [''Area Analysis:'', ''  - Area report generated''] else [])
     @ (if fs w (joinpath (reports_dir self) ''power_report.txt'') \<noteq> None
        then [''Power Analysis:'', ''  - Power report generated''] else [])"
  by (simp_all add: summary_area_power_def exists_def Let_def)

lemma summary_outputs_fields:
  "fs (summary_outputs self w) = fs w"
  "console (summary_outputs self w) = console w
     @ [backslash_n @ ''Output files available in:'',
        ''  - Results: '' @ str_path (results_dir self),
        ''  - Reports: '' @ str_path (reports_dir self),
        ''  - Logs: '' @ str_path (logs_dir self),
        backslash_n @ ''Key files:'',
        ''  - Final netlist: '' @ str_path (results_dir self) @ ''/vixen_dio_pro_final.v'',
        ''  - Layout (DEF): '' @ str_path (results_dir self) @ ''/vixen_dio_pro_final.def'',
        ''  - Timing (SDF): '' @ str_path (results_dir self) @ ''/vixen_dio_pro_final.sdf'',
        ''  - Parasitics: '' @ str_path (results_dir self) @ ''/vixen_dio_pro_final.spef'']
     @ (if fs w (joinpath (results_dir self) ''vixen_dio_pro_final.gds'') \<noteq> None
        then [''  - Layout (GDS): '' @ str_path (joinpath (results_dir self) ''vixen_dio_pro_final.gds'')]
        else [])"
  by (simp_all add: summary_outputs_def exists_def Let_def)

lemma summary_specs_fields:
  "fs (summary_specs w) = fs w"
  "console (summary_specs w) = console w
     @ [backslash_n @ ''Processor specifications achieved:'',
        ''  - Architecture: x86-64 CISC processor'',
        ''  - Cores: 1 physical core, 2 HT threads'',
        ''  - Pipeline: 20 stages'',
        ''  - Issue width: 3-way superscalar'',
        ''  - Process: 130nm'',
        ''  - Target frequency: 3.4 GHz'',
        ''  - Die area target: ~240 mm'' @ [CHR 0xC2, CHR 0xB2]]"
  by (simp_all add: summary_specs_def Let_def)

lemma after_timing_console:
  "console (summary_specs (summary_outputs self (summary_area_power self w)))
     = console w @ after_timing_lines self w"
  "fs (summary_specs (summary_outputs self (summary_area_power self w))) = fs w"
  by (simp_all add: summary_specs_fields summary_outputs_fields summary_area_power_fields
      after_timing_lines_def)

lemma print_summary_console:
  "console (print_summary self w) =
     console w @ [backslash_n @ rule70, ''VIXEN DIO PRO SYNTHESIS SUMMARY'', rule70]
     @ timing_lines self w @ after_timing_lines self w"
  "fs (print_summary self w) = fs w"
proof -
  define w3 where "w3 = print rule70 (print ''VIXEN DIO PRO SYNTHESIS SUMMARY'' (print (backslash_n @ rule70) w))"
  define w4 where "w4 = summary_timing self w3"
  have w3: "fs w3 = fs w" "console w3 = console w @ [backslash_n @ rule70, ''VIXEN DIO PRO SYNTHESIS SUMMARY'', rule70]"
    by (simp_all add: w3_def)
  have t: "timing_lines self w3 = timing_lines self w"
    by (simp add: timing_lines_cases w3)
  have w4: "fs w4 = fs w" "console w4 = console w3 @ timing_lines self w"
    by (simp_all add: w4_def w3 t)
  have a: "after_timing_lines self w4 = after_timing_lines self w"
    by (simp add: after_timing_lines_def w4)
  have ps: "print_summary self w = summary_specs (summary_outputs self (summary_area_power self w4))"
    by (simp add: print_summary_def Let_def w4_def w3_def)
  show "fs (print_summary self w) = fs w"
    unfolding ps after_timing_console(2) by (rule w4(1))
  show "console (print_summary self w) =
     console w @ [backslash_n @ rule70, ''VIXEN DIO PRO SYNTHESIS SUMMARY'', rule70]
     @ timing_lines self w @ after_timing_lines self w"
    unfolding ps after_timing_console(1) a w4(2) w3(2) by simp
qed

lemma summary_lines_eq:
  "summary_lines self w =
     [backslash_n @ rule70, ''VIXEN DIO PRO SYNTHESIS SUMMARY'', rule70]
     @ timing_lines self w @ after_timing_lines self w"
  by (simp add: summary_lines_def print_summary_console(1))

lemma rule70_neq: "CHR '' '' \<in> set m \<Longrightarrow> m \<noteq> rule70"
  by (auto simp: rule70_def)

lemma summary_lines_timing:
  assumes "m \<in> {''Timing Analysis:'', ''  - Timing report generated'',
                ''  - Check timing report for detailed analysis'',
                ''  - Timing report available but could not be parsed''}"
  shows "m \<in> set (summary_lines self w) \<longleftrightarrow> m \<in> set (timing_lines self w)"
proof -
  have sp: "CHR '' '' \<in> set m" using assms by auto
  have "m \<notin> set (after_timing_lines self w)"
    using assms by (auto simp: after_timing_lines_def backslash_n_def)
  then show ?thesis
    using assms rule70_neq [OF sp] by (auto simp: summary_lines_eq backslash_n_def)
qed

text \<open>
  Against C1 as stated: after construction in \<^verbatim>\<open>/proj\<close> there is no timing report, and
  the summary prints none of the timing messages, the fallback included.
\<close>

theorem summary_silent_without_timing_report:
  "fs world2 (timing_report_of (new_flow file0)) = None
   \<and> ''  - Timing report available but could not be parsed'' \<notin> set (summary_lines (new_flow file0) world2)
   \<and> ''  - Timing report generated'' \<notin> set (summary_lines (new_flow file0) world2)
   \<and> ''  - Check timing report for detailed analysis'' \<notin> set (summary_lines (new_flow file0) world2)"
proof -
  have a: "fs world2 (timing_report_of (new_flow file0)) = None"
    by (simp add: world2_def fs2_def world0_def fs0_def file0_def timing_report_of_def new_flow_fields)
  then have "timing_lines (new_flow file0) world2 = []"
    by (simp add: timing_lines_cases)
  with a show ?thesis by (simp add: summary_lines_timing)
qed

text \<open>
  C1, amended. What \<^verbatim>\<open>print_summary\<close> prints about timing is decided by the timing report
  alone. When \<^verbatim>\<open>reports/timing_report.txt\<close> is absent it prints nothing about timing: not
  the heading, and none of the three messages. When it is a file, it prints exactly one
  of two messages: \<^verbatim>\<open>Timing report generated\<close> if the lower-cased text contains
  \<^verbatim>\<open>slack\<close>, and \<^verbatim>\<open>Check timing report for detailed analysis\<close> otherwise. When it is there
  but cannot be read as a file (it is a directory), it prints the fallback message
  \<^verbatim>\<open>Timing report available but could not be parsed\<close> and neither of the other two.
\<close>

theorem summary_timing_message:
  "(fs w (timing_report_of self) = None \<longrightarrow>
      ''Timing Analysis:'' \<notin> set (summary_lines self w)
      \<and> ''  - Timing report generated'' \<notin> set (summary_lines self w)
      \<and> ''  - Check timing report for detailed analysis'' \<notin> set (summary_lines self w)
      \<and> ''  - Timing report available but could not be parsed'' \<notin> set (summary_lines self w))
   \<and> (\<forall>content. fs w (timing_report_of self) = Some (File content) \<longrightarrow>
        (''  - Timing report generated'' \<in> set (summary_lines self w)
           \<longleftrightarrow> contains ''slack'' (lower content))
        \<and> (''  - Check timing report for detailed analysis'' \<in> set (summary_lines self w)
           \<longleftrightarrow> \<not> contains ''slack'' (lower content))
        \<and> ''  - Timing report available but could not be parsed'' \<notin> set (summary_lines self w))
   \<and> (fs w (timing_report_of self) = Some Dir \<longrightarrow>
        ''  - Timing report available but could not be parsed'' \<in> set (summary_lines self w)
        \<and> ''  - Timing report generated'' \<notin> set (summary_lines self w)
        \<and> ''  - Check timing report for detailed analysis'' \<notin> set (summary_lines self w))"
  by (simp add: summary_lines_timing timing_lines_cases)

theorem summary_timing_message_witness:
  "fs world2 (timing_report_of (new_flow file0)) = None
   \<and> ''Timing Analysis:'' \<notin> set (summary_lines (new_flow file0) world2)
   \<and> fs (world_timing (File ''Startpoint: clk   SLACK (MET) 0.05'')) (timing_report_of (new_flow file0))
       = Some (File ''Startpoint: clk   SLACK (MET) 0.05'')
   \<and> contains ''slack'' (lower ''Startpoint: clk   SLACK (MET) 0.05'')
   \<and> ''  - Timing report generated''
       \<in> set (summary_lines (new_flow file0) (world_timing (File ''Startpoint: clk   SLACK (MET) 0.05'')))
   \<and> fs (world_timing (File ''No paths found.'')) (timing_report_of (new_flow file0))
       = Some (File ''No paths found.'')
   \<and> \<not> contains ''slack'' (lower ''No paths found.'')
   \<and> ''  - Check timing report for detailed analysis''
       \<in> set (summary_lines (new_flow file0) (world_timing (File ''No paths found.'')))
   \<and> fs (world_timing Dir) (timing_report_of (new_flow file0)) = Some Dir
   \<and> ''  - Timing report available but could not be parsed''
       \<in> set (summary_lines (new_flow file0) (world_timing Dir))"
proof -
  have p: "timing_report_of (new_flow file0) = Path True [''proj'', ''reports'', ''timing_report.txt'']"
    by (simp add: file0_def timing_report_of_def new_flow_fields)
  have a: "fs world2 (timing_report_of (new_flow file0)) = None"
    unfolding p by (simp add: world2_def fs2_def world0_def fs0_def file0_def)
  have b: "\<And>n. fs (world_timing n) (timing_report_of (new_flow file0)) = Some n"
    unfolding p by (simp add: world_timing_def)
  have c1: "contains ''slack'' (lower ''Startpoint: clk   SLACK (MET) 0.05'')"
    by code_simp
  have c2: "\<not> contains ''slack'' (lower ''No paths found.'')"
    by code_simp
  from summary_timing_message [of world2 "new_flow file0"] a
  have r1: "''Timing Analysis:'' \<notin> set (summary_lines (new_flow file0) world2)" by blast
  from summary_timing_message [of "world_timing (File ''Startpoint: clk   SLACK (MET) 0.05'')" "new_flow file0"] b c1
  have r2: "''  - Timing report generated''
       \<in> set (summary_lines (new_flow file0) (world_timing (File ''Startpoint: clk   SLACK (MET) 0.05'')))"
    by blast
  from summary_timing_message [of "world_timing (File ''No paths found.'')" "new_flow file0"] b c2
  have r3: "''  - Check timing report for detailed analysis''
       \<in> set (summary_lines (new_flow file0) (world_timing (File ''No paths found.'')))"
    by blast
  from summary_timing_message [of "world_timing Dir" "new_flow file0"] b
  have r4: "''  - Timing report available but could not be parsed''
       \<in> set (summary_lines (new_flow file0) (world_timing Dir))"
    by blast
  from a b c1 c2 r1 r2 r3 r4 show ?thesis by simp
qed

subsection \<open>Running the tool\<close>

lemma subprocess_run_Inl:
  "shell w command cwd (fs w) = Inl e \<Longrightarrow>
     subprocess_run command cwd w = (Inl e, w\<lparr>commands := commands w @ [command]\<rparr>)"
  by (simp add: subprocess_run_def Let_def)

lemma subprocess_run_Inr:
  "shell w command cwd (fs w) = Inr (rc, out, f') \<Longrightarrow>
     subprocess_run command cwd w = (Inr (rc, out), w\<lparr>commands := commands w @ [command], fs := f'\<rparr>)"
  by (simp add: subprocess_run_def Let_def)

lemma run_logged_open_fails:
  "fs w (parent lp) \<noteq> Some Dir \<or> fs w lp = Some Dir \<Longrightarrow>
     \<exists>e. run_logged lp command cwd w = (Inl e, w)"
  using open_w_fail [of w lp] by (auto simp: run_logged_def)

lemma run_logged_spawn_fails:
  assumes "fs w (parent lp) = Some Dir" and "fs w lp \<noteq> Some Dir"
    and "shell w command cwd ((fs w)(lp \<mapsto> File [])) = Inl e"
  shows "run_logged lp command cwd w =
     (Inl e, w\<lparr>fs := (fs w)(lp \<mapsto> File []), commands := commands w @ [command]\<rparr>)"
proof -
  define w1 where "w1 = w\<lparr>fs := (fs w)(lp \<mapsto> File [])\<rparr>"
  have o: "open_w lp w = (Inr (), w1)" unfolding w1_def by (rule open_w_ok [OF assms(1,2)])
  have "shell w1 command cwd (fs w1) = Inl e" using assms(3) by (simp add: w1_def)
  then have "subprocess_run command cwd w1 = (Inl e, w1\<lparr>commands := commands w1 @ [command]\<rparr>)"
    by (rule subprocess_run_Inl)
  then show ?thesis by (simp add: run_logged_def o) (simp add: w1_def)
qed

lemma run_logged_exits:
  assumes "fs w (parent lp) = Some Dir" and "fs w lp \<noteq> Some Dir"
    and "shell w command cwd ((fs w)(lp \<mapsto> File [])) = Inr (rc, out, f')"
  shows "run_logged lp command cwd w =
     (Inr (rc = 0),
      w\<lparr>fs := f'(lp \<mapsto> File out), commands := commands w @ [command],
        console := console w @ (if rc \<noteq> 0 then [''Error: Command failed with return code '' @ str_int rc] else [])\<rparr>)"
proof -
  define w1 where "w1 = w\<lparr>fs := (fs w)(lp \<mapsto> File [])\<rparr>"
  have o: "open_w lp w = (Inr (), w1)" unfolding w1_def by (rule open_w_ok [OF assms(1,2)])
  have "shell w1 command cwd (fs w1) = Inr (rc, out, f')" using assms(3) by (simp add: w1_def)
  then have "subprocess_run command cwd w1 = (Inr (rc, out), w1\<lparr>commands := commands w1 @ [command], fs := f'\<rparr>)"
    by (rule subprocess_run_Inr)
  then show ?thesis
    by (simp add: run_logged_def o Let_def write_fd_def print_def) (simp add: w1_def)
qed

lemma run_command_logged:
  "name \<noteq> [] \<Longrightarrow>
   run_command self command (Some name) None w =
     run_logged (joinpath (logs_dir self) name) command (project_root self) (print (''Running: '' @ command) w)"
  by (simp add: run_command_def Let_def)

lemma parent_log_path: "parent (log_path_of self) = logs_dir self"
  by (simp add: log_path_of_def parent_joinpath)

lemma new_flow_paths_distinct:
  "script_path_of (new_flow file) \<noteq> logs_dir (new_flow file)"
  "script_path_of (new_flow file) \<noteq> log_path_of (new_flow file)"
  unfolding script_path_of_def log_path_of_def new_flow_fields
  by (cases "parent (parent file)", simp)+

text \<open>The world in which \<^verbatim>\<open>run_synthesis\<close> calls \<^verbatim>\<open>run_command\<close>, when the script could be written.\<close>

lemma run_synthesis_generated:
  assumes "fs w (scripts_dir self) = Some Dir" and "fs w (script_path_of self) \<noteq> Some Dir"
  shows "run_synthesis self w =
    (case run_logged (log_path_of self) (openroad_command self) (project_root self)
            (w\<lparr>fs := (fs w)(script_path_of self \<mapsto> File (tcl_script_text self)),
               console := console w @ [rule70, ''Starting Vixen Dio Pro Synthesis Flow'', rule70,
                                       ''Running: '' @ openroad_command self]\<rparr>) of
       (Inl e, w5) \<Rightarrow> (Inl e, w5)
     | (Inr success, w5) \<Rightarrow>
         if success
         then (Inr success,
               print_summary self
                 (print (backslash_n @ ''Synthesis completed successfully in ''
                           @ duration_text w5 @ '' seconds!'') w5))
         else (Inr success,
               print (''Check log file: '' @ str_path (logs_dir self) @ ''/synthesis.log'')
                 (print (backslash_n @ ''Synthesis failed after ''
                           @ duration_text w5 @ '' seconds.'') w5)))"
proof -
  define w3 where "w3 = print rule70 (print ''Starting Vixen Dio Pro Synthesis Flow'' (print rule70 w))"
  have f3: "fs w3 = fs w" by (simp add: w3_def)
  have g: "generate_tcl_script self w3 =
       (Inr (script_path_of self), w3\<lparr>fs := (fs w3)(script_path_of self \<mapsto> File (tcl_script_text self))\<rparr>)"
    by (rule generate_ok) (simp_all add: f3 assms)
  have w5: "print (''Running: '' @ openroad_command self)
              (w3\<lparr>fs := (fs w3)(script_path_of self \<mapsto> File (tcl_script_text self))\<rparr>)
        = w\<lparr>fs := (fs w)(script_path_of self \<mapsto> File (tcl_script_text self)),
               console := console w @ [rule70, ''Starting Vixen Dio Pro Synthesis Flow'', rule70,
                                       ''Running: '' @ openroad_command self]\<rparr>"
    by (simp add: w3_def print_def)
  have rc: "run_command self (''openroad -no_splash '' @ str_path (script_path_of self))
              (Some ''synthesis.log'') None
              (w3\<lparr>fs := (fs w3)(script_path_of self \<mapsto> File (tcl_script_text self))\<rparr>)
        = run_logged (log_path_of self) (openroad_command self) (project_root self)
            (w\<lparr>fs := (fs w)(script_path_of self \<mapsto> File (tcl_script_text self)),
               console := console w @ [rule70, ''Starting Vixen Dio Pro Synthesis Flow'', rule70,
                                       ''Running: '' @ openroad_command self]\<rparr>)"
    using run_command_logged [of "''synthesis.log''" self "openroad_command self"
        "w3\<lparr>fs := (fs w3)(script_path_of self \<mapsto> File (tcl_script_text self))\<rparr>"] w5
    by (simp add: openroad_command_def log_path_of_def)
  show ?thesis
    unfolding run_synthesis_def Let_def w3_def[symmetric] g prod.case sum.case rc ..
qed


text \<open>How \<^verbatim>\<open>run_synthesis\<close> ends once the script is written, by what happens to the log and the child.\<close>

lemma run_synthesis_log_fails:
  assumes "self = new_flow file"
    and "fs w (scripts_dir self) = Some Dir" and "fs w (script_path_of self) \<noteq> Some Dir"
    and "fs w (logs_dir self) \<noteq> Some Dir \<or> fs w (log_path_of self) = Some Dir"
  shows "\<exists>e. fst (run_synthesis self w) = Inl e"
proof -
  define wA where "wA = w\<lparr>fs := (fs w)(script_path_of self \<mapsto> File (tcl_script_text self)),
               console := console w @ [rule70, ''Starting Vixen Dio Pro Synthesis Flow'', rule70,
                                       ''Running: '' @ openroad_command self]\<rparr>"
  have d: "script_path_of self \<noteq> logs_dir self" "script_path_of self \<noteq> log_path_of self"
    unfolding assms(1) by (rule new_flow_paths_distinct)+
  have "fs wA (parent (log_path_of self)) \<noteq> Some Dir \<or> fs wA (log_path_of self) = Some Dir"
    using assms(4) d by (auto simp: wA_def parent_log_path)
  then obtain e where "run_logged (log_path_of self) (openroad_command self) (project_root self) wA = (Inl e, wA)"
    using run_logged_open_fails by blast
  then have "fst (run_synthesis self w) = Inl e"
    unfolding run_synthesis_generated [OF assms(2,3)] wA_def[symmetric] by simp
  then show ?thesis ..
qed

lemma run_synthesis_spawn_fails:
  assumes "self = new_flow file"
    and "fs w (scripts_dir self) = Some Dir" and "fs w (script_path_of self) \<noteq> Some Dir"
    and "fs w (logs_dir self) = Some Dir" and "fs w (log_path_of self) \<noteq> Some Dir"
    and "shell w (openroad_command self) (project_root self) (fs_at_launch self w) = Inl e"
  shows "fst (run_synthesis self w) = Inl e"
proof -
  define wA where "wA = w\<lparr>fs := (fs w)(script_path_of self \<mapsto> File (tcl_script_text self)),
               console := console w @ [rule70, ''Starting Vixen Dio Pro Synthesis Flow'', rule70,
                                       ''Running: '' @ openroad_command self]\<rparr>"
  have d: "script_path_of self \<noteq> logs_dir self" "script_path_of self \<noteq> log_path_of self"
    unfolding assms(1) by (rule new_flow_paths_distinct)+
  have a: "fs wA (parent (log_path_of self)) = Some Dir" "fs wA (log_path_of self) \<noteq> Some Dir"
    using assms(4,5) d by (auto simp: wA_def parent_log_path)
  have b: "shell wA (openroad_command self) (project_root self) ((fs wA)(log_path_of self \<mapsto> File [])) = Inl e"
    using assms(6) by (simp add: wA_def fs_at_launch_def)
  show ?thesis
    unfolding run_synthesis_generated [OF assms(2,3)] wA_def[symmetric]
      run_logged_spawn_fails [OF a b] by simp
qed

lemma run_synthesis_exits:
  assumes "self = new_flow file"
    and "fs w (scripts_dir self) = Some Dir" and "fs w (script_path_of self) \<noteq> Some Dir"
    and "fs w (logs_dir self) = Some Dir" and "fs w (log_path_of self) \<noteq> Some Dir"
    and "shell w (openroad_command self) (project_root self) (fs_at_launch self w) = Inr (rc, out, f')"
  shows "fst (run_synthesis self w) = Inr (rc = 0)"
    and "fs (snd (run_synthesis self w)) = f'(log_path_of self \<mapsto> File out)"
    and "commands (snd (run_synthesis self w)) = commands w @ [openroad_command self]"
    and "rc \<noteq> 0 \<Longrightarrow> synthesis_lines self w =
           [rule70, ''Starting Vixen Dio Pro Synthesis Flow'', rule70,
            ''Running: '' @ openroad_command self,
            ''Error: Command failed with return code '' @ str_int rc,
            backslash_n @ ''Synthesis failed after '' @ duration_text w @ '' seconds.'',
            ''Check log file: '' @ str_path (logs_dir self) @ ''/synthesis.log'']"
    and "rc = 0 \<Longrightarrow> \<exists>rest. synthesis_lines self w =
           [rule70, ''Starting Vixen Dio Pro Synthesis Flow'', rule70,
            ''Running: '' @ openroad_command self,
            backslash_n @ ''Synthesis completed successfully in '' @ duration_text w @ '' seconds!'',
            backslash_n @ rule70, ''VIXEN DIO PRO SYNTHESIS SUMMARY'', rule70] @ rest"
proof -
  define wA where "wA = w\<lparr>fs := (fs w)(script_path_of self \<mapsto> File (tcl_script_text self)),
               console := console w @ [rule70, ''Starting Vixen Dio Pro Synthesis Flow'', rule70,
                                       ''Running: '' @ openroad_command self]\<rparr>"
  define wB where "wB = wA\<lparr>fs := f'(log_path_of self \<mapsto> File out),
        commands := commands wA @ [openroad_command self],
        console := console wA @ (if rc \<noteq> 0 then [''Error: Command failed with return code '' @ str_int rc] else [])\<rparr>"
  have d: "script_path_of self \<noteq> logs_dir self" "script_path_of self \<noteq> log_path_of self"
    unfolding assms(1) by (rule new_flow_paths_distinct)+
  have a: "fs wA (parent (log_path_of self)) = Some Dir" "fs wA (log_path_of self) \<noteq> Some Dir"
    using assms(4,5) d by (auto simp: wA_def parent_log_path)
  have b: "shell wA (openroad_command self) (project_root self) ((fs wA)(log_path_of self \<mapsto> File []))
            = Inr (rc, out, f')"
    using assms(6) by (simp add: wA_def fs_at_launch_def)
  have rl: "run_logged (log_path_of self) (openroad_command self) (project_root self) wA = (Inr (rc = 0), wB)"
    unfolding wB_def by (rule run_logged_exits [OF a b])
  have rs: "run_synthesis self w =
      (if rc = 0
       then (Inr True,
             print_summary self
               (print (backslash_n @ ''Synthesis completed successfully in ''
                         @ duration_text wB @ '' seconds!'') wB))
       else (Inr False,
             print (''Check log file: '' @ str_path (logs_dir self) @ ''/synthesis.log'')
               (print (backslash_n @ ''Synthesis failed after ''
                         @ duration_text wB @ '' seconds.'') wB)))"
    unfolding run_synthesis_generated [OF assms(2,3)] wA_def[symmetric] rl by simp
  have B: "fs wB = f'(log_path_of self \<mapsto> File out)" "commands wB = commands w @ [openroad_command self]"
    "duration_text wB = duration_text w"
    by (simp_all add: wB_def wA_def)
  show "fst (run_synthesis self w) = Inr (rc = 0)" by (simp add: rs)
  show "fs (snd (run_synthesis self w)) = f'(log_path_of self \<mapsto> File out)"
    by (simp add: rs print_summary_console(2) B)
  show "commands (snd (run_synthesis self w)) = commands w @ [openroad_command self]"
    by (simp add: rs B print_summary_def summary_specs_def summary_outputs_def summary_area_power_def
        summary_timing_def Let_def split: sum.splits)
  {
    assume nz: "rc \<noteq> 0"
    then have "console (snd (run_synthesis self w)) = console w @
           [rule70, ''Starting Vixen Dio Pro Synthesis Flow'', rule70,
            ''Running: '' @ openroad_command self,
            ''Error: Command failed with return code '' @ str_int rc,
            backslash_n @ ''Synthesis failed after '' @ duration_text w @ '' seconds.'',
            ''Check log file: '' @ str_path (logs_dir self) @ ''/synthesis.log'']"
      by (simp add: rs B(3)) (simp add: wB_def wA_def)
    then show "synthesis_lines self w =
           [rule70, ''Starting Vixen Dio Pro Synthesis Flow'', rule70,
            ''Running: '' @ openroad_command self,
            ''Error: Command failed with return code '' @ str_int rc,
            backslash_n @ ''Synthesis failed after '' @ duration_text w @ '' seconds.'',
            ''Check log file: '' @ str_path (logs_dir self) @ ''/synthesis.log'']"
      by (simp add: synthesis_lines_def)
  }
  {
    assume z: "rc = 0"
    define wC where "wC = print (backslash_n @ ''Synthesis completed successfully in ''
                         @ duration_text wB @ '' seconds!'') wB"
    have c: "console wC = console w @ [rule70, ''Starting Vixen Dio Pro Synthesis Flow'', rule70,
            ''Running: '' @ openroad_command self,
            backslash_n @ ''Synthesis completed successfully in '' @ duration_text w @ '' seconds!'']"
      using z by (simp add: wC_def B(3)) (simp add: wB_def wA_def)
    have rs0: "snd (run_synthesis self w) = print_summary self wC"
      using z unfolding rs wC_def by simp
    have "console (snd (run_synthesis self w)) = console wC
        @ [backslash_n @ rule70, ''VIXEN DIO PRO SYNTHESIS SUMMARY'', rule70]
        @ timing_lines self wC @ after_timing_lines self wC"
      unfolding rs0 by (rule print_summary_console(1))
    then have "synthesis_lines self w =
           [rule70, ''Starting Vixen Dio Pro Synthesis Flow'', rule70,
            ''Running: '' @ openroad_command self,
            backslash_n @ ''Synthesis completed successfully in '' @ duration_text w @ '' seconds!'',
            backslash_n @ rule70, ''VIXEN DIO PRO SYNTHESIS SUMMARY'', rule70]
           @ (timing_lines self wC @ after_timing_lines self wC)"
      by (simp add: synthesis_lines_def c)
    then show "\<exists>rest. synthesis_lines self w =
           [rule70, ''Starting Vixen Dio Pro Synthesis Flow'', rule70,
            ''Running: '' @ openroad_command self,
            backslash_n @ ''Synthesis completed successfully in '' @ duration_text w @ '' seconds!'',
            backslash_n @ rule70, ''VIXEN DIO PRO SYNTHESIS SUMMARY'', rule70] @ rest" ..
  }
qed


lemma file0_paths:
  "project_root (new_flow file0) = Path True [''proj'']"
  "scripts_dir (new_flow file0) = Path True [''proj'', ''scripts'']"
  "script_path_of (new_flow file0) = Path True [''proj'', ''scripts'', ''vixen_synthesis.tcl'']"
  "logs_dir (new_flow file0) = Path True [''proj'', ''logs'']"
  "log_path_of (new_flow file0) = Path True [''proj'', ''logs'', ''synthesis.log'']"
  by (simp_all add: file0_def new_flow_fields scripts_dir_def script_path_of_def log_path_of_def)

lemma world2_ready:
  "fs2 (Path True [''proj'', ''scripts'']) = Some Dir"
  "fs2 (Path True [''proj'', ''scripts'', ''vixen_synthesis.tcl'']) \<noteq> Some Dir"
  "fs2 (Path True [''proj'', ''logs'']) = Some Dir"
  "fs2 (Path True [''proj'', ''logs'', ''synthesis.log'']) \<noteq> Some Dir"
  by (simp_all add: fs2_def fs0_def file0_def)

text \<open>
  C4. Let the script be writable and the log file be openable, and let the child, started
  on the file system that holds the script and the truncated (empty) log, exit with
  status \<^verbatim>\<open>rc\<close> after printing \<^verbatim>\<open>out\<close>. Then \<^verbatim>\<open>run_synthesis\<close> returns \<^verbatim>\<open>True\<close> if \<^verbatim>\<open>rc\<close>
  is 0 and \<^verbatim>\<open>False\<close> otherwise; in both cases the log file afterwards holds exactly
  \<^verbatim>\<open>out\<close>, whatever it held before; and the heading of the summary is among the lines
  printed exactly when \<^verbatim>\<open>rc\<close> is 0.
\<close>

theorem run_synthesis_exit_status:
  assumes "self = new_flow file"
    and "fs w (scripts_dir self) = Some Dir" and "fs w (script_path_of self) \<noteq> Some Dir"
    and "fs w (logs_dir self) = Some Dir" and "fs w (log_path_of self) \<noteq> Some Dir"
    and "shell w (openroad_command self) (project_root self) (fs_at_launch self w) = Inr (rc, out, f')"
  shows "fst (run_synthesis self w) = Inr (rc = 0)
       \<and> fs_at_launch self w (log_path_of self) = Some (File [])
       \<and> fs (snd (run_synthesis self w)) (log_path_of self) = Some (File out)
       \<and> (''VIXEN DIO PRO SYNTHESIS SUMMARY'' \<in> set (synthesis_lines self w) \<longleftrightarrow> rc = 0)"
proof (intro conjI)
  show "fst (run_synthesis self w) = Inr (rc = 0)"
    by (rule run_synthesis_exits(1) [OF assms])
  show "fs_at_launch self w (log_path_of self) = Some (File [])"
    by (simp add: fs_at_launch_def)
  show "fs (snd (run_synthesis self w)) (log_path_of self) = Some (File out)"
    by (simp add: run_synthesis_exits(2) [OF assms])
  show "''VIXEN DIO PRO SYNTHESIS SUMMARY'' \<in> set (synthesis_lines self w) \<longleftrightarrow> rc = 0"
  proof (cases "rc = 0")
    case True
    from run_synthesis_exits(5) [OF assms True] obtain rest where
      "synthesis_lines self w =
           [rule70, ''Starting Vixen Dio Pro Synthesis Flow'', rule70,
            ''Running: '' @ openroad_command self,
            backslash_n @ ''Synthesis completed successfully in '' @ duration_text w @ '' seconds!'',
            backslash_n @ rule70, ''VIXEN DIO PRO SYNTHESIS SUMMARY'', rule70] @ rest" ..
    with True show ?thesis by simp
  next
    case False
    have "''VIXEN DIO PRO SYNTHESIS SUMMARY'' \<noteq> rule70"
      by (rule rule70_neq) simp
    with False show ?thesis
      by (simp add: run_synthesis_exits(4) [OF assms False] backslash_n_def)
  qed
qed

theorem run_synthesis_exit_status_witness:
  "fst (run_synthesis (new_flow file0) world_tool_fails) = Inr False
   \<and> fs (snd (run_synthesis (new_flow file0) world_tool_fails)) (Path True [''proj'', ''logs'', ''synthesis.log''])
       = Some (File ''[ERROR] cannot read LEF'')
   \<and> ''VIXEN DIO PRO SYNTHESIS SUMMARY'' \<notin> set (synthesis_lines (new_flow file0) world_tool_fails)
   \<and> fst (run_synthesis (new_flow file0) world2) = Inr True
   \<and> fs (snd (run_synthesis (new_flow file0) world2)) (Path True [''proj'', ''logs'', ''synthesis.log''])
       = Some (File ''done'')
   \<and> ''VIXEN DIO PRO SYNTHESIS SUMMARY'' \<in> set (synthesis_lines (new_flow file0) world2)"
proof -
  have f: "fs world_tool_fails = fs2" "fs world2 = fs2"
    by (simp_all add: world_tool_fails_def world2_def)
  have s1: "shell world_tool_fails (openroad_command (new_flow file0)) (project_root (new_flow file0))
              (fs_at_launch (new_flow file0) world_tool_fails)
            = Inr (1, ''[ERROR] cannot read LEF'', fs_at_launch (new_flow file0) world_tool_fails)"
    by (simp add: world_tool_fails_def)
  have s2: "shell world2 (openroad_command (new_flow file0)) (project_root (new_flow file0))
              (fs_at_launch (new_flow file0) world2)
            = Inr (0, ''done'', fs_at_launch (new_flow file0) world2)"
    by (simp add: world2_def world0_def)
  have a: "fst (run_synthesis (new_flow file0) world_tool_fails) = Inr ((1::int) = 0)
       \<and> fs_at_launch (new_flow file0) world_tool_fails (log_path_of (new_flow file0)) = Some (File [])
       \<and> fs (snd (run_synthesis (new_flow file0) world_tool_fails)) (log_path_of (new_flow file0))
            = Some (File ''[ERROR] cannot read LEF'')
       \<and> (''VIXEN DIO PRO SYNTHESIS SUMMARY'' \<in> set (synthesis_lines (new_flow file0) world_tool_fails)
            \<longleftrightarrow> (1::int) = 0)"
    by (rule run_synthesis_exit_status [OF refl _ _ _ _ s1]) (simp_all add: f file0_paths world2_ready)
  have b: "fst (run_synthesis (new_flow file0) world2) = Inr ((0::int) = 0)
       \<and> fs_at_launch (new_flow file0) world2 (log_path_of (new_flow file0)) = Some (File [])
       \<and> fs (snd (run_synthesis (new_flow file0) world2)) (log_path_of (new_flow file0))
            = Some (File ''done'')
       \<and> (''VIXEN DIO PRO SYNTHESIS SUMMARY'' \<in> set (synthesis_lines (new_flow file0) world2)
            \<longleftrightarrow> (0::int) = 0)"
    by (rule run_synthesis_exit_status [OF refl _ _ _ _ s2]) (simp_all add: f file0_paths world2_ready)
  from a b show ?thesis by (simp add: file0_paths)
qed

text \<open>
  Against C2 as stated: when \<^verbatim>\<open>logs/synthesis.log\<close> is a directory, opening the log file
  raises \<^verbatim>\<open>IsADirectoryError\<close>, and \<^verbatim>\<open>run_synthesis\<close> raises it too instead of returning
  a boolean.
\<close>

theorem run_synthesis_raises_on_log_open:
  "fst (run_synthesis (new_flow file0) world_log_is_dir) = Inl IsADirectoryError"
proof -
  have f: "fs world_log_is_dir = fs2(Path True [''proj'', ''logs'', ''synthesis.log''] \<mapsto> Dir)"
    by (simp add: world_log_is_dir_def)
  have g: "fs world_log_is_dir (scripts_dir (new_flow file0)) = Some Dir"
    "fs world_log_is_dir (script_path_of (new_flow file0)) \<noteq> Some Dir"
    by (simp_all add: f file0_paths world2_ready)
  show ?thesis
    unfolding run_synthesis_generated [OF g]
    by (simp add: run_logged_def open_w_def parent_log_path file0_paths f world2_ready)
qed

text \<open>
  C2, amended. Of what can go wrong once the script is written, \<^verbatim>\<open>run_synthesis\<close> turns
  only a non-zero exit status of the child into the boolean \<^verbatim>\<open>False\<close>. If the log file
  cannot be opened for writing, \<^verbatim>\<open>run_synthesis\<close> raises; if the child cannot be started,
  \<^verbatim>\<open>run_synthesis\<close> raises the error of the start; if the child runs and exits with
  status \<^verbatim>\<open>rc\<close>, it returns whether \<^verbatim>\<open>rc\<close> is 0.
\<close>

theorem run_synthesis_catches_exit_status_only:
  assumes "self = new_flow file"
    and "fs w (scripts_dir self) = Some Dir" and "fs w (script_path_of self) \<noteq> Some Dir"
  shows "(fs w (logs_dir self) \<noteq> Some Dir \<or> fs w (log_path_of self) = Some Dir
            \<longrightarrow> (\<exists>e. fst (run_synthesis self w) = Inl e))
       \<and> (fs w (logs_dir self) = Some Dir \<and> fs w (log_path_of self) \<noteq> Some Dir \<longrightarrow>
            (\<forall>e. shell w (openroad_command self) (project_root self) (fs_at_launch self w) = Inl e
                   \<longrightarrow> fst (run_synthesis self w) = Inl e)
            \<and> (\<forall>rc out f'.
                   shell w (openroad_command self) (project_root self) (fs_at_launch self w) = Inr (rc, out, f')
                   \<longrightarrow> fst (run_synthesis self w) = Inr (rc = 0)))"
proof (intro conjI impI allI)
  assume "fs w (logs_dir self) \<noteq> Some Dir \<or> fs w (log_path_of self) = Some Dir"
  then show "\<exists>e. fst (run_synthesis self w) = Inl e"
    by (rule run_synthesis_log_fails [OF assms])
next
  fix e
  assume "fs w (logs_dir self) = Some Dir \<and> fs w (log_path_of self) \<noteq> Some Dir"
    and "shell w (openroad_command self) (project_root self) (fs_at_launch self w) = Inl e"
  then show "fst (run_synthesis self w) = Inl e"
    using run_synthesis_spawn_fails [OF assms] by blast
next
  fix rc out f'
  assume "fs w (logs_dir self) = Some Dir \<and> fs w (log_path_of self) \<noteq> Some Dir"
    and "shell w (openroad_command self) (project_root self) (fs_at_launch self w) = Inr (rc, out, f')"
  then show "fst (run_synthesis self w) = Inr (rc = 0)"
    using run_synthesis_exits(1) [OF assms] by blast
qed

theorem run_synthesis_catches_exit_status_only_witness:
  "(\<exists>e. fst (run_synthesis (new_flow file0) world_log_is_dir) = Inl e)
   \<and> fst (run_synthesis (new_flow file0) world_no_shell) = Inl OSError
   \<and> fst (run_synthesis (new_flow file0) world_tool_fails) = Inr False"
proof -
  have f: "fs world_log_is_dir = fs2(Path True [''proj'', ''logs'', ''synthesis.log''] \<mapsto> Dir)"
    "fs world_no_shell = fs2" "fs world_tool_fails = fs2"
    by (simp_all add: world_log_is_dir_def world_no_shell_def world_tool_fails_def world2_def)
  have g1: "fs world_log_is_dir (scripts_dir (new_flow file0)) = Some Dir"
    "fs world_log_is_dir (script_path_of (new_flow file0)) \<noteq> Some Dir"
    and l1: "fs world_log_is_dir (log_path_of (new_flow file0)) = Some Dir"
    by (simp_all add: f file0_paths world2_ready)
  have g2: "fs world_no_shell (scripts_dir (new_flow file0)) = Some Dir"
    "fs world_no_shell (script_path_of (new_flow file0)) \<noteq> Some Dir"
    and l2: "fs world_no_shell (logs_dir (new_flow file0)) = Some Dir
             \<and> fs world_no_shell (log_path_of (new_flow file0)) \<noteq> Some Dir"
    and s2: "shell world_no_shell (openroad_command (new_flow file0)) (project_root (new_flow file0))
               (fs_at_launch (new_flow file0) world_no_shell) = Inl OSError"
    by (simp_all add: f file0_paths world2_ready) (simp add: world_no_shell_def)
  have g3: "fs world_tool_fails (scripts_dir (new_flow file0)) = Some Dir"
    "fs world_tool_fails (script_path_of (new_flow file0)) \<noteq> Some Dir"
    and l3: "fs world_tool_fails (logs_dir (new_flow file0)) = Some Dir
             \<and> fs world_tool_fails (log_path_of (new_flow file0)) \<noteq> Some Dir"
    and s3: "shell world_tool_fails (openroad_command (new_flow file0)) (project_root (new_flow file0))
               (fs_at_launch (new_flow file0) world_tool_fails)
             = Inr (1, ''[ERROR] cannot read LEF'', fs_at_launch (new_flow file0) world_tool_fails)"
    by (simp_all add: f file0_paths world2_ready) (simp add: world_tool_fails_def)
  from run_synthesis_catches_exit_status_only [OF refl g1] l1
  have r1: "\<exists>e. fst (run_synthesis (new_flow file0) world_log_is_dir) = Inl e" by blast
  from run_synthesis_catches_exit_status_only [OF refl g2] l2 s2
  have r2: "fst (run_synthesis (new_flow file0) world_no_shell) = Inl OSError" by blast
  from run_synthesis_catches_exit_status_only [OF refl g3] l3 s3
  have "fst (run_synthesis (new_flow file0) world_tool_fails) = Inr ((1::int) = 0)" by blast
  with r1 r2 show ?thesis by simp
qed

subsection \<open>Prerequisites\<close>

lemma run_command_probe:
  assumes "shell w (''which '' @ tool) (project_root self) (fs w) = Inr (rc, out, f')"
  shows "run_command self (''which '' @ tool) None None w =
     (Inr (rc = 0),
      w\<lparr>console := console w @ [''Running: which '' @ tool, out]
                     @ (if rc \<noteq> 0 then [''Error: Command failed with return code '' @ str_int rc] else []),
        commands := commands w @ [''which '' @ tool],
        fs := f'\<rparr>)"
proof -
  define w0 where "w0 = print (''Running: '' @ ''which '' @ tool) w"
  have "shell w0 (''which '' @ tool) (project_root self) (fs w0) = Inr (rc, out, f')"
    using assms by (simp add: w0_def)
  then have "subprocess_run (''which '' @ tool) (project_root self) w0
      = (Inr (rc, out), w0\<lparr>commands := commands w0 @ [''which '' @ tool], fs := f'\<rparr>)"
    by (rule subprocess_run_Inr)
  then have "run_unlogged (''which '' @ tool) (project_root self) w0 =
     (Inr (rc = 0),
      w\<lparr>console := console w @ [''Running: which '' @ tool, out]
                     @ (if rc \<noteq> 0 then [''Error: Command failed with return code '' @ str_int rc] else []),
        commands := commands w @ [''which '' @ tool],
        fs := f'\<rparr>)"
    by (simp add: run_unlogged_def Let_def) (simp add: w0_def print_def)
  then show ?thesis
    by (simp add: run_command_def Let_def w0_def)
qed

lemma probe_tools_decided:
  assumes "\<forall>t\<in>set ts. \<forall>f. \<exists>rc out f'.
             sh (''which '' @ t) (project_root self) f = Inr (rc, out, f') \<and> (rc = 0 \<longleftrightarrow> R t)"
    and "shell w = sh"
  shows "\<exists>w' extra. probe_tools self ts acc w = (Inr (acc @ filter (\<lambda>t. \<not> R t) ts), w')
           \<and> shell w' = sh \<and> console w' = console w @ extra"
  using assms
proof (induction ts arbitrary: acc w)
  case Nil
  then show ?case by simp
next
  case (Cons t ts)
  from Cons.prems obtain rc out f' where
    sh: "shell w (''which '' @ t) (project_root self) (fs w) = Inr (rc, out, f')" and r: "rc = 0 \<longleftrightarrow> R t"
    by (metis list.set_intros(1))
  define w1 where "w1 = w\<lparr>console := console w @ [''Running: which '' @ t, out]
                     @ (if rc \<noteq> 0 then [''Error: Command failed with return code '' @ str_int rc] else []),
        commands := commands w @ [''which '' @ t],
        fs := f'\<rparr>"
  have step: "run_command self (''which '' @ t) None None w = (Inr (rc = 0), w1)"
    unfolding w1_def by (rule run_command_probe [OF sh])
  have s1: "shell w1 = sh" using Cons.prems(2) by (simp add: w1_def)
  have rest: "\<forall>t\<in>set ts. \<forall>f. \<exists>rc out f'.
             sh (''which '' @ t) (project_root self) f = Inr (rc, out, f') \<and> (rc = 0 \<longleftrightarrow> R t)"
    using Cons.prems(1) by simp
  from Cons.IH [OF rest s1, of "if \<not> (rc = 0) then acc @ [t] else acc"]
  obtain w' extra where
    p: "probe_tools self ts (if \<not> (rc = 0) then acc @ [t] else acc) w1
          = (Inr ((if \<not> (rc = 0) then acc @ [t] else acc) @ filter (\<lambda>t. \<not> R t) ts), w')"
    and s: "shell w' = sh" and c: "console w' = console w1 @ extra"
    by blast
  have "probe_tools self (t # ts) acc w
          = probe_tools self ts (if \<not> (rc = 0) then acc @ [t] else acc) w1"
    unfolding probe_tools.simps step by simp
  then have "probe_tools self (t # ts) acc w = (Inr (acc @ filter (\<lambda>t. \<not> R t) (t # ts)), w')"
    unfolding p using r by auto
  moreover have "console w' = console w @ ([''Running: which '' @ t, out]
                     @ (if rc \<noteq> 0 then [''Error: Command failed with return code '' @ str_int rc] else [])
                     @ extra)"
    by (simp add: c w1_def)
  ultimately show ?case using s by blast
qed

lemma check_prerequisites_decided:
  assumes "\<forall>t\<in>set tools. \<forall>f. \<exists>rc out f'.
             shell w (''which '' @ t) (project_root self) f = Inr (rc, out, f') \<and> (rc = 0 \<longleftrightarrow> R t)"
  shows "fst (check_prerequisites self w) = Inr (\<forall>t\<in>set tools. R t)"
    and "\<not> (\<forall>t\<in>set tools. R t) \<Longrightarrow>
           ''Error: Missing required tools: '' @ join '', '' (filter (\<lambda>t. \<not> R t) tools)
             \<in> set (prerequisite_lines self w)"
proof -
  from probe_tools_decided [OF assms refl, of "[]"] obtain w' extra where
    p: "probe_tools self tools [] w = (Inr (filter (\<lambda>t. \<not> R t) tools), w')"
    and c: "console w' = console w @ extra"
    by auto
  have e: "filter (\<lambda>t. \<not> R t) tools = [] \<longleftrightarrow> (\<forall>t\<in>set tools. R t)"
    by (simp add: filter_empty_conv)
  show "fst (check_prerequisites self w) = Inr (\<forall>t\<in>set tools. R t)"
    using e by (simp add: check_prerequisites_def p)
  assume "\<not> (\<forall>t\<in>set tools. R t)"
  with e have ne: "filter (\<lambda>t. \<not> R t) tools \<noteq> []" by simp
  have "console (snd (check_prerequisites self w)) = console w @ extra
       @ [''Error: Missing required tools: '' @ join '', '' (filter (\<lambda>t. \<not> R t) tools),
          ''Please install OpenROAD and required dependencies'']"
    using ne by (simp add: check_prerequisites_def p c)
  then show "''Error: Missing required tools: '' @ join '', '' (filter (\<lambda>t. \<not> R t) tools)
             \<in> set (prerequisite_lines self w)"
    by (simp add: prerequisite_lines_def)
qed

lemma run_command_probe_fails:
  assumes "shell w (''which '' @ tool) (project_root self) (fs w) = Inl e"
  shows "fst (run_command self (''which '' @ tool) None None w) = Inl e"
proof -
  define w0 where "w0 = print (''Running: '' @ ''which '' @ tool) w"
  have "shell w0 (''which '' @ tool) (project_root self) (fs w0) = Inl e"
    using assms by (simp add: w0_def)
  then have "subprocess_run (''which '' @ tool) (project_root self) w0
      = (Inl e, w0\<lparr>commands := commands w0 @ [''which '' @ tool]\<rparr>)"
    by (rule subprocess_run_Inl)
  then have "fst (run_unlogged (''which '' @ tool) (project_root self) w0) = Inl e"
    by (simp add: run_unlogged_def)
  then show ?thesis
    by (simp add: run_command_def Let_def w0_def)
qed

lemma probe_tools_statuses:
  "case probe_statuses (shell w) (project_root self) (fs w) ts of
     Inl e \<Rightarrow> fst (probe_tools self ts acc w) = Inl e
   | Inr rcs \<Rightarrow>
       (\<exists>w' extra. probe_tools self ts acc w = (Inr (acc @ failed_probes ts rcs), w')
                    \<and> console w' = console w @ extra)"
proof (induction ts arbitrary: acc w)
  case Nil
  then show ?case by (simp add: failed_probes_def)
next
  case (Cons t ts)
  show ?case
  proof (cases "shell w (''which '' @ t) (project_root self) (fs w)")
    case (Inl e)
    from run_command_probe_fails [OF Inl]
    obtain w' where "run_command self (''which '' @ t) None None w = (Inl e, w')"
      by (cases "run_command self (''which '' @ t) None None w") auto
    then have "fst (probe_tools self (t # ts) acc w) = Inl e"
      unfolding probe_tools.simps by simp
    then have a: "fst (probe_tools self (t # ts) acc w) = Inl e" .
    have b: "probe_statuses (shell w) (project_root self) (fs w) (t # ts) = Inl e"
      unfolding probe_statuses.simps Inl by simp
    show ?thesis by (simp only: b sum.case a)
  next
    case (Inr r)
    obtain rc out f' where r: "r = (rc, out, f')" by (cases r) auto
    have sh: "shell w (''which '' @ t) (project_root self) (fs w) = Inr (rc, out, f')"
      using Inr r by simp
    define w1 where "w1 = w\<lparr>console := console w @ [''Running: which '' @ t, out]
                     @ (if rc \<noteq> 0 then [''Error: Command failed with return code '' @ str_int rc] else []),
        commands := commands w @ [''which '' @ t],
        fs := f'\<rparr>"
    define acc1 where "acc1 = (if \<not> (rc = 0) then acc @ [t] else acc)"
    have step: "run_command self (''which '' @ t) None None w = (Inr (rc = 0), w1)"
      unfolding w1_def by (rule run_command_probe [OF sh])
    have w1: "shell w1 = shell w" "fs w1 = f'"
      "console w1 = console w @ [''Running: which '' @ t, out]
                     @ (if rc \<noteq> 0 then [''Error: Command failed with return code '' @ str_int rc] else [])"
      by (simp_all add: w1_def)
    have pt: "probe_tools self (t # ts) acc w = probe_tools self ts acc1 w1"
      unfolding probe_tools.simps step acc1_def by simp
    have ps: "probe_statuses (shell w) (project_root self) (fs w) (t # ts) =
        (case probe_statuses (shell w) (project_root self) f' ts of
           Inl e \<Rightarrow> Inl e | Inr rcs \<Rightarrow> Inr (rc # rcs))"
      unfolding probe_statuses.simps sh by simp
    note IH = Cons.IH [where w = w1 and acc = acc1, unfolded w1(1,2)]
    show ?thesis
    proof (cases "probe_statuses (shell w) (project_root self) f' ts")
      case (Inl e)
      with IH have "fst (probe_tools self ts acc1 w1) = Inl e" by simp
      then have a: "fst (probe_tools self (t # ts) acc w) = Inl e" unfolding pt .
      have b: "probe_statuses (shell w) (project_root self) (fs w) (t # ts) = Inl e"
        unfolding ps Inl by simp
      show ?thesis by (simp only: b sum.case a)
    next
      case (Inr rcs)
      with IH obtain w' extra where
        p: "probe_tools self ts acc1 w1 = (Inr (acc1 @ failed_probes ts rcs), w')"
        and c: "console w' = console w1 @ extra"
        by auto
      have "acc1 @ failed_probes ts rcs = acc @ failed_probes (t # ts) (rc # rcs)"
        by (simp add: acc1_def failed_probes_def)
      moreover have "console w' = console w @ ([''Running: which '' @ t, out]
                     @ (if rc \<noteq> 0 then [''Error: Command failed with return code '' @ str_int rc] else [])
                     @ extra)"
        by (simp add: c w1(3))
      ultimately have "\<exists>w' extra. probe_tools self (t # ts) acc w
            = (Inr (acc @ failed_probes (t # ts) (rc # rcs)), w') \<and> console w' = console w @ extra"
        unfolding pt p by blast
      then have a: "\<exists>w' extra. probe_tools self (t # ts) acc w
            = (Inr (acc @ failed_probes (t # ts) (rc # rcs)), w') \<and> console w' = console w @ extra" .
      have b: "probe_statuses (shell w) (project_root self) (fs w) (t # ts) = Inr (rc # rcs)"
        unfolding ps Inr by simp
      show ?thesis by (simp only: b sum.case a)
    qed
  qed
qed

lemma failed_probes_empty:
  "length rcs = length ts \<Longrightarrow> failed_probes ts rcs = [] \<longleftrightarrow> list_all (\<lambda>rc. rc = 0) rcs"
proof (induction ts arbitrary: rcs)
  case Nil
  then show ?case by (simp add: failed_probes_def)
next
  case (Cons t ts)
  then obtain rc rest where "rcs = rc # rest" by (cases rcs) auto
  with Cons show ?case by (auto simp: failed_probes_def)
qed

lemma probe_statuses_length:
  "probe_statuses sh cwd f ts = Inr rcs \<Longrightarrow> length rcs = length ts"
proof (induction ts arbitrary: f rcs)
  case Nil
  then show ?case by simp
next
  case (Cons t ts)
  then show ?case by (auto split: sum.splits)
qed


text \<open>
  Against C6 as stated: on a machine where \<^verbatim>\<open>openroad\<close>, \<^verbatim>\<open>yosys\<close> and \<^verbatim>\<open>klayout\<close> all
  resolve on the search path but \<^verbatim>\<open>which\<close> itself does not exist, every probe exits
  with status 127, \<^verbatim>\<open>check_prerequisites\<close> returns \<^verbatim>\<open>False\<close>, and the tools it names as
  missing are the three that resolve.
\<close>

theorem check_prerequisites_false_though_all_resolve:
  "resolves_on [Path True [''usr'', ''bin'']] (fs world_no_which) ''openroad''
   \<and> resolves_on [Path True [''usr'', ''bin'']] (fs world_no_which) ''yosys''
   \<and> resolves_on [Path True [''usr'', ''bin'']] (fs world_no_which) ''klayout''
   \<and> fst (check_prerequisites (new_flow file0) world_no_which) = Inr False
   \<and> ''Error: Missing required tools: openroad, yosys, klayout''
       \<in> set (prerequisite_lines (new_flow file0) world_no_which)"
proof -
  have r: "resolves_on [Path True [''usr'', ''bin'']] (fs world_no_which) ''openroad''"
    "resolves_on [Path True [''usr'', ''bin'']] (fs world_no_which) ''yosys''"
    "resolves_on [Path True [''usr'', ''bin'']] (fs world_no_which) ''klayout''"
    by (simp_all add: resolves_on_def world_no_which_def fs_tools_installed_def)
  have h: "\<forall>t\<in>set tools. \<forall>f. \<exists>rc out f'.
       shell world_no_which (''which '' @ t) (project_root (new_flow file0)) f = Inr (rc, out, f')
       \<and> (rc = 0 \<longleftrightarrow> False)"
    by (simp add: world_no_which_def)
  have m: "join '', '' (filter (\<lambda>t. \<not> False) tools) = ''openroad, yosys, klayout''"
    by (simp add: tools_def)
  have n: "\<not> (\<forall>t\<in>set tools. False)" by (auto simp: tools_def)
  have "fst (check_prerequisites (new_flow file0) world_no_which) = Inr (\<forall>t\<in>set tools. False)"
    by (rule check_prerequisites_decided(1) [OF h])
  then have a: "fst (check_prerequisites (new_flow file0) world_no_which) = Inr False"
    using n by simp
  have "''Error: Missing required tools: '' @ join '', '' (filter (\<lambda>t. \<not> False) tools)
          \<in> set (prerequisite_lines (new_flow file0) world_no_which)"
    by (rule check_prerequisites_decided(2) [OF h n])
  then have b: "''Error: Missing required tools: openroad, yosys, klayout''
       \<in> set (prerequisite_lines (new_flow file0) world_no_which)"
    unfolding m by simp
  from r a b show ?thesis by simp
qed

text \<open>
  C6, amended. \<^verbatim>\<open>check_prerequisites\<close> decides by the exit statuses of the probes
  \<^verbatim>\<open>which tool\<close> that it runs through the shell, in the project root, one tool of the
  fixed list after the other. If a probe cannot be started, the error leaves
  \<^verbatim>\<open>check_prerequisites\<close>. Otherwise it returns \<^verbatim>\<open>True\<close> if and only if every probe
  exited with status 0, and when it returns \<^verbatim>\<open>False\<close> it prints the line that names, in
  the order of the list, exactly the tools whose probe exited with another status.
\<close>

theorem check_prerequisites_follows_probes:
  "case probe_statuses (shell w) (project_root self) (fs w) tools of
     Inl e \<Rightarrow> fst (check_prerequisites self w) = Inl e
   | Inr rcs \<Rightarrow>
       fst (check_prerequisites self w) = Inr (list_all (\<lambda>rc. rc = 0) rcs)
       \<and> (\<not> list_all (\<lambda>rc. rc = 0) rcs \<longrightarrow>
            ''Error: Missing required tools: '' @ join '', '' (failed_probes tools rcs)
              \<in> set (prerequisite_lines self w))"
proof (cases "probe_statuses (shell w) (project_root self) (fs w) tools")
  case (Inl e)
  with probe_tools_statuses [where w = w and self = self and ts = tools and acc = "[]"]
  have "fst (probe_tools self tools [] w) = Inl e" by simp
  then obtain w' where "probe_tools self tools [] w = (Inl e, w')"
    by (cases "probe_tools self tools [] w") auto
  then have "fst (check_prerequisites self w) = Inl e"
    by (simp add: check_prerequisites_def)
  with Inl show ?thesis by simp
next
  case (Inr rcs)
  with probe_tools_statuses [where w = w and self = self and ts = tools and acc = "[]"] obtain w' extra where
    p: "probe_tools self tools [] w = (Inr (failed_probes tools rcs), w')"
    and c: "console w' = console w @ extra"
    by auto
  have e: "failed_probes tools rcs = [] \<longleftrightarrow> list_all (\<lambda>rc. rc = 0) rcs"
    by (rule failed_probes_empty) (rule probe_statuses_length [OF Inr])
  have a: "fst (check_prerequisites self w) = Inr (list_all (\<lambda>rc. rc = 0) rcs)"
    using e by (simp add: check_prerequisites_def p)
  have b: "''Error: Missing required tools: '' @ join '', '' (failed_probes tools rcs)
              \<in> set (prerequisite_lines self w)"
    if "\<not> list_all (\<lambda>rc. rc = 0) rcs"
  proof -
    from that e have ne: "failed_probes tools rcs \<noteq> []" by simp
    have "console (snd (check_prerequisites self w)) = console w @ extra
       @ [''Error: Missing required tools: '' @ join '', '' (failed_probes tools rcs),
          ''Please install OpenROAD and required dependencies'']"
      using ne by (simp add: check_prerequisites_def p c)
    then show ?thesis by (simp add: prerequisite_lines_def)
  qed
  from a b Inr show ?thesis by simp
qed

theorem check_prerequisites_follows_probes_witness:
  "probe_statuses (shell world2_openroad_only) (project_root (new_flow file0))
     (fs world2_openroad_only) tools = Inr [0, 1, 1]
   \<and> fst (check_prerequisites (new_flow file0) world2_openroad_only) = Inr False
   \<and> ''Error: Missing required tools: yosys, klayout''
       \<in> set (prerequisite_lines (new_flow file0) world2_openroad_only)
   \<and> probe_statuses (shell world2) (project_root (new_flow file0)) (fs world2) tools = Inr [0, 0, 0]
   \<and> fst (check_prerequisites (new_flow file0) world2) = Inr True
   \<and> probe_statuses (shell world_no_shell) (project_root (new_flow file0)) (fs world_no_shell) tools
       = Inl OSError
   \<and> fst (check_prerequisites (new_flow file0) world_no_shell) = Inl OSError"
proof -
  have s1: "probe_statuses (shell world2_openroad_only) (project_root (new_flow file0))
     (fs world2_openroad_only) tools = Inr [0, 1, 1]"
    by (simp add: tools_def world2_openroad_only_def shell_openroad_only_def)
  have s2: "probe_statuses (shell world2) (project_root (new_flow file0)) (fs world2) tools = Inr [0, 0, 0]"
    by (simp add: tools_def world2_def world0_def)
  have s3: "probe_statuses (shell world_no_shell) (project_root (new_flow file0)) (fs world_no_shell) tools
       = Inl OSError"
    by (simp add: tools_def world_no_shell_def)
  have m: "join '', '' (failed_probes tools [0, 1, 1]) = ''yosys, klayout''"
    by (simp add: tools_def failed_probes_def)
  from check_prerequisites_follows_probes [where w = world2_openroad_only and self = "new_flow file0"]
  have r1: "fst (check_prerequisites (new_flow file0) world2_openroad_only) = Inr False
     \<and> ''Error: Missing required tools: yosys, klayout''
       \<in> set (prerequisite_lines (new_flow file0) world2_openroad_only)"
    unfolding s1 by (simp add: m)
  from check_prerequisites_follows_probes [where w = world2 and self = "new_flow file0"]
  have r2: "fst (check_prerequisites (new_flow file0) world2) = Inr True"
    unfolding s2 by simp
  from check_prerequisites_follows_probes [where w = world_no_shell and self = "new_flow file0"]
  have r3: "fst (check_prerequisites (new_flow file0) world_no_shell) = Inl OSError"
    unfolding s3 by simp
  from s1 s2 s3 r1 r2 r3 show ?thesis by simp
qed

lemma openroad_only_probes:
  "\<forall>t\<in>set tools. \<forall>f. \<exists>rc out f'.
     shell_openroad_only (''which '' @ t) cwd f = Inr (rc, out, f')
     \<and> (rc = 0 \<longleftrightarrow> t = ''openroad'')"
  by (simp add: tools_def shell_openroad_only_def)

subsection \<open>The command line\<close>

lemma usage_fields:
  "fs (usage w) = fs w" "commands (usage w) = commands w"
  "console (usage w) = console w @
     [''Vixen Dio Pro Synthesis Flow'',
      ''Usage: python3 vixen_synthesis.py'',
      backslash_n @ ''This script runs the complete OpenROAD synthesis flow for'',
      ''the Vixen Dio Pro processor targeting 130nm process technology.'']"
  by (simp_all add: usage_def Let_def)

lemma main_flow:
  assumes "\<not> (length argv > 1 \<and> argv ! 1 \<in> {''-h'', ''--help''})"
  shows "main argv file w =
     (case init file w of
        (Inl e, w1) \<Rightarrow> (1, w1)
      | (Inr flow, w1) \<Rightarrow>
          (case check_prerequisites flow w1 of
             (Inl e, w2) \<Rightarrow> (1, w2)
           | (Inr ok, w2) \<Rightarrow>
               if \<not> ok then (1, w2)
               else (case run_synthesis flow w2 of
                       (Inl e, w3) \<Rightarrow> (1, w3)
                     | (Inr success, w3) \<Rightarrow> if \<not> success then (1, w3) else (0, w3))))"
  using assms unfolding main_def by auto

text \<open>
  C7. With \<^verbatim>\<open>-h\<close> or \<^verbatim>\<open>--help\<close> as its first argument the script prints the usage text
  and ends with status 0; the file system is untouched and no command has been run.
  Every other command line runs the flow: construction, the check of the prerequisites,
  the synthesis. The exit status is then 0 exactly when construction succeeded, the
  check returned \<^verbatim>\<open>True\<close> and \<^verbatim>\<open>run_synthesis\<close> returned \<^verbatim>\<open>True\<close>, and it is 1 otherwise; in
  particular it is 1, and the flow stops there, when the check returns \<^verbatim>\<open>False\<close> and
  when \<^verbatim>\<open>run_synthesis\<close> returns \<^verbatim>\<open>False\<close>.
\<close>

theorem main_help_or_flow:
  "(length argv > 1 \<and> argv ! 1 \<in> {''-h'', ''--help''} \<longrightarrow>
      main argv file w = (0, usage w)
      \<and> fs (usage w) = fs w \<and> commands (usage w) = commands w
      \<and> console (usage w) = console w @
           [''Vixen Dio Pro Synthesis Flow'',
            ''Usage: python3 vixen_synthesis.py'',
            backslash_n @ ''This script runs the complete OpenROAD synthesis flow for'',
            ''the Vixen Dio Pro processor targeting 130nm process technology.''])
   \<and> (\<not> (length argv > 1 \<and> argv ! 1 \<in> {''-h'', ''--help''}) \<longrightarrow>
        (fst (main argv file w) = 0 \<longleftrightarrow>
           (\<exists>self w1 w2 w3. init file w = (Inr self, w1)
              \<and> check_prerequisites self w1 = (Inr True, w2)
              \<and> run_synthesis self w2 = (Inr True, w3)))
        \<and> (fst (main argv file w) \<noteq> 0 \<longrightarrow> fst (main argv file w) = 1)
        \<and> (\<forall>self w1 w2. init file w = (Inr self, w1) \<and> check_prerequisites self w1 = (Inr False, w2)
              \<longrightarrow> main argv file w = (1, w2))
        \<and> (\<forall>self w1 w2 w3. init file w = (Inr self, w1) \<and> check_prerequisites self w1 = (Inr True, w2)
              \<and> run_synthesis self w2 = (Inr False, w3)
              \<longrightarrow> main argv file w = (1, w3)))"
proof (intro conjI impI)
  assume h: "length argv > 1 \<and> argv ! 1 \<in> {''-h'', ''--help''}"
  then show "main argv file w = (0, usage w)"
    unfolding main_def by auto
  show "fs (usage w) = fs w" "commands (usage w) = commands w" by (rule usage_fields)+
  show "console (usage w) = console w @
           [''Vixen Dio Pro Synthesis Flow'',
            ''Usage: python3 vixen_synthesis.py'',
            backslash_n @ ''This script runs the complete OpenROAD synthesis flow for'',
            ''the Vixen Dio Pro processor targeting 130nm process technology.'']"
    by (rule usage_fields)
next
  assume n: "\<not> (length argv > 1 \<and> argv ! 1 \<in> {''-h'', ''--help''})"
  note m = main_flow [OF n]
  show "fst (main argv file w) = 0 \<longleftrightarrow>
           (\<exists>self w1 w2 w3. init file w = (Inr self, w1)
              \<and> check_prerequisites self w1 = (Inr True, w2)
              \<and> run_synthesis self w2 = (Inr True, w3))"
    unfolding m by (auto split: prod.splits sum.splits)
  show "fst (main argv file w) = 1" if "fst (main argv file w) \<noteq> 0"
    using that unfolding m by (auto split: prod.splits sum.splits if_splits)
  show "\<forall>self w1 w2. init file w = (Inr self, w1) \<and> check_prerequisites self w1 = (Inr False, w2)
              \<longrightarrow> main argv file w = (1, w2)"
    unfolding m by simp
  show "\<forall>self w1 w2 w3. init file w = (Inr self, w1) \<and> check_prerequisites self w1 = (Inr True, w2)
              \<and> run_synthesis self w2 = (Inr False, w3)
              \<longrightarrow> main argv file w = (1, w3)"
    unfolding m by simp
qed


lemma init_world0:
  "init file0 (world0\<lparr>shell := sh\<rparr>) = (Inr (new_flow file0), world2\<lparr>shell := sh\<rparr>)"
  unfolding init_success
  by (simp add: world2_def fs2_def world0_def fs0_def file0_def new_flow_fields creatable_def)

lemma check_prerequisites_world2:
  "check_prerequisites (new_flow file0) world2 =
     (Inr True,
      world2\<lparr>console := [''Running: which openroad'', ''done'', ''Running: which yosys'', ''done'',
                          ''Running: which klayout'', ''done''],
             commands := [''which openroad'', ''which yosys'', ''which klayout'']\<rparr>)"
proof -
  have sh: "\<And>c d f. shell world2 c d f = Inr (0, ''done'', f)"
    by (simp add: world2_def world0_def)
  define wa where "wa = world2\<lparr>console := console world2 @ [''Running: which '' @ ''openroad'', ''done''] @ [],
        commands := commands world2 @ [''which '' @ ''openroad''], fs := fs world2\<rparr>"
  define wb where "wb = wa\<lparr>console := console wa @ [''Running: which '' @ ''yosys'', ''done''] @ [],
        commands := commands wa @ [''which '' @ ''yosys''], fs := fs wa\<rparr>"
  define wc where "wc = wb\<lparr>console := console wb @ [''Running: which '' @ ''klayout'', ''done''] @ [],
        commands := commands wb @ [''which '' @ ''klayout''], fs := fs wb\<rparr>"
  have a: "run_command (new_flow file0) (''which '' @ ''openroad'') None None world2 = (Inr ((0::int) = 0), wa)"
    using run_command_probe [of world2 "''openroad''" "new_flow file0" 0 "''done''" "fs world2"]
    by (simp add: sh wa_def)
  have sa: "\<And>c d f. shell wa c d f = Inr (0, ''done'', f)" by (simp add: wa_def sh)
  have b: "run_command (new_flow file0) (''which '' @ ''yosys'') None None wa = (Inr ((0::int) = 0), wb)"
    using run_command_probe [of wa "''yosys''" "new_flow file0" 0 "''done''" "fs wa"]
    by (simp add: sa wb_def)
  have sb: "\<And>c d f. shell wb c d f = Inr (0, ''done'', f)" by (simp add: wb_def sa)
  have c: "run_command (new_flow file0) (''which '' @ ''klayout'') None None wb = (Inr ((0::int) = 0), wc)"
    using run_command_probe [of wb "''klayout''" "new_flow file0" 0 "''done''" "fs wb"]
    by (simp add: sb wc_def)
  have "probe_tools (new_flow file0) [''openroad'', ''yosys'', ''klayout''] [] world2 = (Inr [], wc)"
    unfolding probe_tools.simps a prod.case sum.case b c by simp
  then have "check_prerequisites (new_flow file0) world2 = (Inr True, wc)"
    by (simp add: check_prerequisites_def tools_def)
  moreover have "wc = world2\<lparr>console := [''Running: which openroad'', ''done'', ''Running: which yosys'', ''done'',
                          ''Running: which klayout'', ''done''],
             commands := [''which openroad'', ''which yosys'', ''which klayout'']\<rparr>"
    by (simp add: wc_def wb_def wa_def world2_def world0_def)
  ultimately show ?thesis by simp
qed

theorem main_help_or_flow_witness:
  "main [''vixen_synthesis.py'', ''--help''] file0 world0 = (0, usage world0)
   \<and> fs (usage world0) = fs0 \<and> commands (usage world0) = []
   \<and> fst (main [''vixen_synthesis.py''] file0 world0) = 0
   \<and> fst (main [''vixen_synthesis.py''] file0 world0_openroad_only) = 1"
proof -
  have hp: "length [''vixen_synthesis.py'', ''--help''] > 1
      \<and> [''vixen_synthesis.py'', ''--help''] ! 1 \<in> {''-h'', ''--help''}"
    by simp
  have flow: "\<not> (length [''vixen_synthesis.py''] > 1 \<and> [''vixen_synthesis.py''] ! 1 \<in> {''-h'', ''--help''})"
    by simp
  from main_help_or_flow [of "[''vixen_synthesis.py'', ''--help'']" file0 world0] hp
  have r1: "main [''vixen_synthesis.py'', ''--help''] file0 world0 = (0, usage world0)
      \<and> fs (usage world0) = fs world0 \<and> commands (usage world0) = commands world0"
    by blast
  define w2 where "w2 = world2\<lparr>console := [''Running: which openroad'', ''done'', ''Running: which yosys'', ''done'',
                          ''Running: which klayout'', ''done''],
             commands := [''which openroad'', ''which yosys'', ''which klayout'']\<rparr>"
  have i: "init file0 world0 = (Inr (new_flow file0), world2)"
    using init_world0 [of "shell world0"] by (simp add: world2_def)
  have c: "check_prerequisites (new_flow file0) world2 = (Inr True, w2)"
    unfolding w2_def by (rule check_prerequisites_world2)
  have f2: "fs w2 = fs2" by (simp add: w2_def world2_def)
  have sh: "shell w2 (openroad_command (new_flow file0)) (project_root (new_flow file0))
              (fs_at_launch (new_flow file0) w2)
            = Inr (0, ''done'', fs_at_launch (new_flow file0) w2)"
    by (simp add: w2_def world2_def world0_def)
  have "fst (run_synthesis (new_flow file0) w2) = Inr ((0::int) = 0)"
    by (rule run_synthesis_exits(1) [OF refl _ _ _ _ sh]) (simp_all add: f2 file0_paths world2_ready)
  then have s: "run_synthesis (new_flow file0) w2 = (Inr True, snd (run_synthesis (new_flow file0) w2))"
    by (simp add: prod_eq_iff)
  from main_help_or_flow [of "[''vixen_synthesis.py'']" file0 world0] flow i c s
  have r2: "fst (main [''vixen_synthesis.py''] file0 world0) = 0"
    by blast
  have i': "init file0 world0_openroad_only = (Inr (new_flow file0), world2_openroad_only)"
    unfolding world0_openroad_only_def world2_openroad_only_def by (rule init_world0)
  have pr: "\<forall>t\<in>set tools. \<forall>f. \<exists>rc out f'.
       shell world2_openroad_only (''which '' @ t) (project_root (new_flow file0)) f = Inr (rc, out, f')
       \<and> (rc = 0 \<longleftrightarrow> t = ''openroad'')"
    using openroad_only_probes by (simp add: world2_openroad_only_def)
  have "fst (check_prerequisites (new_flow file0) world2_openroad_only) = Inr (\<forall>t\<in>set tools. t = ''openroad'')"
    by (rule check_prerequisites_decided(1) [OF pr])
  then have c': "check_prerequisites (new_flow file0) world2_openroad_only
      = (Inr False, snd (check_prerequisites (new_flow file0) world2_openroad_only))"
    by (simp add: prod_eq_iff tools_def)
  from main_help_or_flow [of "[''vixen_synthesis.py'']" file0 world0_openroad_only] flow i' c'
  have "main [''vixen_synthesis.py''] file0 world0_openroad_only
      = (1, snd (check_prerequisites (new_flow file0) world2_openroad_only))"
    by blast
  then have r3: "fst (main [''vixen_synthesis.py''] file0 world0_openroad_only) = 1" by simp
  from r1 r2 r3 show ?thesis by (simp add: world0_def)
qed

subsection \<open>Occurrences of a pattern\<close>

lemma occurrences_zero_iff: "occurrences p t = 0 \<longleftrightarrow> \<not> sublist p t"
  by (induction t) (auto simp: sublist_Cons_right)

lemma prefix_before_separator:
  assumes "c \<notin> set p"
  shows "prefix p (u @ c # v) \<longleftrightarrow> prefix p u"
proof
  assume "prefix p (u @ c # v)"
  then consider "prefix p u" | us where "p = u @ us" "prefix us (c # v)"
    by (auto simp: prefix_append)
  then show "prefix p u"
  proof cases
    case 1
    then show ?thesis .
  next
    case 2
    with assms have "us = []" by (cases us) auto
    with 2 show ?thesis by simp
  qed
next
  assume "prefix p u"
  then show "prefix p (u @ c # v)" by (rule prefix_prefix)
qed

lemma occurrences_separator:
  assumes "c \<notin> set p"
  shows "occurrences p (u @ c # v) = occurrences p u + occurrences p v"
proof (induction u)
  case Nil
  have "prefix p (c # v) \<longleftrightarrow> p = []"
    using prefix_before_separator [OF assms, of "[]" v] by simp
  then show ?case by simp
next
  case (Cons x u)
  have "prefix p (x # u @ c # v) \<longleftrightarrow> prefix p (x # u)"
    using prefix_before_separator [OF assms, of "x # u" v] by simp
  with Cons show ?case by simp
qed

lemma occurrences_skip:
  assumes "p \<noteq> []" and "hd p \<notin> set a"
  shows "occurrences p (a @ t) = occurrences p t"
  using assms(2)
proof (induction a)
  case Nil
  then show ?case by simp
next
  case (Cons x a)
  from assms(1) Cons.prems have "\<not> prefix p (x # a @ t)"
    by (cases p) auto
  with Cons show ?case by simp
qed

lemma occurrences_foreign_char:
  assumes "c \<in> set p" and "c \<notin> set t"
  shows "occurrences p t = 0"
proof -
  have "\<not> sublist p t"
  proof
    assume "sublist p t"
    then have "set p \<subseteq> set t" by (rule set_mono_sublist)
    with assms show False by auto
  qed
  then show ?thesis by (simp add: occurrences_zero_iff)
qed

lemma occurrences_longer:
  assumes "occurrences q t = 0"
  shows "occurrences (s @ q) t = 0"
proof -
  have "sublist q (s @ q)" by simp
  with assms show ?thesis
    unfolding occurrences_zero_iff using sublist_order.order_trans by blast
qed

lemma sublist_drop: "sublist p t \<longleftrightarrow> (\<exists>k. prefix p (drop k t))"
proof
  assume "sublist p t"
  then obtain a b where "t = a @ p @ b" by (auto simp: sublist_def)
  then have "prefix p (drop (length a) t)" by simp
  then show "\<exists>k. prefix p (drop k t)" ..
next
  assume "\<exists>k. prefix p (drop k t)"
  then obtain k b where "drop k t = p @ b" by (auto simp: prefix_def)
  then have "t = take k t @ p @ b" by (metis append_take_drop_id)
  then show "sublist p t" unfolding sublist_def by blast
qed

lemma not_sublist_shifted:
  assumes "\<not> sublist p (tl q)"
  shows "\<not> sublist (x # s @ p) (s @ q)"
proof
  assume "sublist (x # s @ p) (s @ q)"
  then obtain k where "prefix ((x # s) @ p) (drop k (s @ q))"
    by (auto simp: sublist_drop)
  then obtain b where "drop k (s @ q) = (x # s) @ p @ b" by (auto simp: prefix_def)
  then have "drop (Suc (length s)) (drop k (s @ q)) = p @ b" by simp
  then have "drop (Suc (length s) + k) (s @ q) = p @ b" by (simp only: drop_drop)
  moreover have "drop (Suc (length s) + k) (s @ q) = drop (Suc k) q" by simp
  ultimately have "drop (Suc k) q = p @ b" by simp
  then have "drop k (tl q) = p @ b" by (simp add: drop_Suc)
  then have "prefix p (drop k (tl q))" by simp
  then have "sublist p (tl q)" unfolding sublist_drop ..
  with assms show False ..
qed

lemma occurrences_common_prefix:
  assumes "\<not> sublist p (tl q)"
  shows "occurrences (s @ p) (s @ q) = (if prefix p q then 1 else 0)"
proof (cases s)
  case Nil
  show ?thesis
  proof (cases q)
    case Nil
    with assms \<open>s = []\<close> show ?thesis by auto
  next
    case (Cons y ys)
    with assms have "occurrences p ys = 0" by (simp add: occurrences_zero_iff)
    with Cons \<open>s = []\<close> show ?thesis by simp
  qed
next
  case (Cons x s')
  have "occurrences (x # s' @ p) (s' @ q) = 0"
    unfolding occurrences_zero_iff by (rule not_sublist_shifted [OF assms])
  with Cons show ?thesis by simp
qed

lemma occurrences_unlines:
  assumes "CHR ''\<newline>'' \<notin> set p" and "p \<noteq> []"
  shows "occurrences p (unlines ls) = sum_list (map (occurrences p) ls)"
proof (induction ls)
  case Nil
  with assms(2) show ?case by (simp add: unlines_def)
next
  case (Cons l ls)
  have "unlines (l # ls) = l @ CHR ''\<newline>'' # unlines ls" by (simp add: unlines_def)
  with Cons show ?case by (simp add: occurrences_separator [OF assms(1)])
qed

lemma occurrences_unlines_none:
  assumes "CHR ''\<newline>'' \<notin> set p" and "p \<noteq> []" and "list_all (\<lambda>l. occurrences p l = 0) ls"
  shows "occurrences p (unlines ls) = 0"
  using assms(3) by (simp add: occurrences_unlines [OF assms(1,2)] list_all_iff)


lemma occurrences_at_least:
  "sublist p t \<Longrightarrow> 1 \<le> occurrences p t"
  using occurrences_zero_iff [of p t] by simp

lemma occurrences_after: "occurrences p t \<le> occurrences p (a @ t)"
  by (induction a) auto

subsection \<open>The generated script\<close>

lemma join_snoc: "ps \<noteq> [] \<Longrightarrow> join sep (ps @ [n]) = join sep ps @ sep @ n"
  by (induction sep ps rule: join.induct) auto

lemma str_path_joined: "str_path (joinpath (Path True ps) n) = root_text ps @ ''/'' @ n"
  by (cases "ps = []") (simp_all add: root_text_def join_snoc)

lemma root_text_snoc: "root_text (ps @ [n]) = root_text ps @ ''/'' @ n"
  by (cases "ps = []") (simp_all add: root_text_def join_snoc)

lemma str_path_joined_twice:
  "str_path (joinpath (joinpath (Path True ps) c) n) = root_text ps @ ''/'' @ c @ ''/'' @ n"
proof -
  have "joinpath (Path True ps) c = Path True (ps @ [c])" by simp
  then show ?thesis by (simp only: str_path_joined root_text_snoc append_assoc)
qed

lemma root_text_starts: "root_text ps = [] \<or> hd (root_text ps) = CHR ''/''"
  by (simp add: root_text_def)

lemma join_without:
  "c \<notin> set sep \<Longrightarrow> \<forall>x\<in>set ps. c \<notin> set x \<Longrightarrow> c \<notin> set (join sep ps)"
  by (induction sep ps rule: join.induct) auto

lemma root_text_without_quote:
  "\<forall>x\<in>set ps. CHR 0x22 \<notin> set x \<Longrightarrow> CHR 0x22 \<notin> set (root_text ps)"
  using join_without [of "CHR 0x22" "''/''" ps] by (simp add: root_text_def)

lemma tcl_script_text_split:
  "tcl_script_text self =
     script_head @ str_path (config_file self)
     @ ''\<newline>\<newline># Set up directories\<newline>set results_dir '' @ CHR 0x22 # str_path (results_dir self)
     @ CHR 0x22 # ''\<newline>set reports_dir '' @ CHR 0x22 # str_path (reports_dir self)
     @ CHR 0x22 # ''\<newline>set logs_dir '' @ CHR 0x22 # str_path (logs_dir self)
     @ CHR 0x22 # script_tail"
  by (simp add: tcl_script_text_def script_head_def script_tail_def unlines_def)

lemma script_head_no_slash: "CHR ''/'' \<notin> set script_head"
  by (simp add: script_head_def unlines_def tcl_header_def)

lemma script_tail_none:
  assumes "CHR ''\<newline>'' \<notin> set p" and "p \<noteq> []" and "list_all (\<lambda>l. occurrences p l = 0) tcl_flow"
  shows "occurrences p script_tail = 0"
proof -
  have "occurrences p script_tail = occurrences p [] + occurrences p (unlines tcl_flow)"
    using occurrences_separator [OF assms(1), of "[]" "unlines tcl_flow"]
    by (simp add: script_tail_def)
  with assms show ?thesis by (simp add: occurrences_unlines_none)
qed

lemma script_tail_results: "occurrences ''/results'' script_tail = 0"
  by (rule script_tail_none) (simp, simp, code_simp)

lemma script_tail_reports: "occurrences ''/reports'' script_tail = 0"
  by (rule script_tail_none) (simp, simp, code_simp)

lemma script_tail_logs: "occurrences ''/logs'' script_tail = 0"
  by (rule script_tail_none) (simp, simp, code_simp)

lemma script_tail_config: "occurrences ''/config/openroad_config.tcl'' script_tail = 0"
  by (rule script_tail_none) (simp, simp, code_simp)

text \<open>
  The count of a substituted path \<open>S @ P\<close> in the script, where \<open>S\<close> is the text of the
  root and \<open>P\<close> the rest of the path: the double quotes cut the script into pieces, and
  in each piece the path can only stand where the template puts a path.
\<close>

lemma occurrences_in_script:
  assumes S: "CHR 0x22 \<notin> set S" "S = [] \<or> hd S = CHR ''/''"
    and P: "P \<noteq> []" "hd P = CHR ''/''" "CHR 0x22 \<notin> set P"
    and c: "occurrences P (tl (''/config/openroad_config.tcl'' @ ''\<newline>\<newline># Set up directories\<newline>set results_dir '')) = 0"
    and r: "occurrences P (tl ''/results'') = 0" "occurrences P (tl ''/reports'') = 0"
           "occurrences P (tl ''/logs'') = 0"
    and t: "occurrences P script_tail = 0"
  shows "occurrences (S @ P)
          (script_head @ (S @ ''/config/openroad_config.tcl'')
           @ ''\<newline>\<newline># Set up directories\<newline>set results_dir '' @ CHR 0x22 # (S @ ''/results'')
           @ CHR 0x22 # ''\<newline>set reports_dir '' @ CHR 0x22 # (S @ ''/reports'')
           @ CHR 0x22 # ''\<newline>set logs_dir '' @ CHR 0x22 # (S @ ''/logs'')
           @ CHR 0x22 # script_tail)
       = (if prefix P (''/config/openroad_config.tcl'' @ ''\<newline>\<newline># Set up directories\<newline>set results_dir '') then 1 else 0)
         + (if prefix P ''/results'' then 1 else 0)
         + (if prefix P ''/reports'' then 1 else 0)
         + (if prefix P ''/logs'' then 1 else 0)"
proof -
  define X where "X = S @ P"
  define C1 where "C1 = ''/config/openroad_config.tcl'' @ ''\<newline>\<newline># Set up directories\<newline>set results_dir ''"
  have q: "CHR 0x22 \<notin> set X" using S(1) P(3) by (simp add: X_def)
  have X: "X \<noteq> []" "hd X = CHR ''/''"
    using S(2) P(1,2) by (auto simp: X_def hd_append)
  from hd_in_set [OF X(1)] have Xs: "CHR ''/'' \<in> set X" by (simp add: X(2))
  have ns: "\<And>Q. occurrences P (tl Q) = 0 \<Longrightarrow> occurrences X (S @ Q) = (if prefix P Q then 1 else 0)"
    unfolding X_def by (rule occurrences_common_prefix) (simp add: occurrences_zero_iff)
  have p1: "occurrences X (script_head @ S @ C1) = (if prefix P C1 then 1 else 0)"
    using occurrences_skip [OF X(1), of script_head "S @ C1"] script_head_no_slash X(2) ns [of C1] c
    by (simp add: C1_def)
  have p2: "occurrences X (S @ ''/results'') = (if prefix P ''/results'' then 1 else 0)"
    by (rule ns [OF r(1)])
  have p3: "occurrences X (S @ ''/reports'') = (if prefix P ''/reports'' then 1 else 0)"
    by (rule ns [OF r(2)])
  have p4: "occurrences X (S @ ''/logs'') = (if prefix P ''/logs'' then 1 else 0)"
    by (rule ns [OF r(3)])
  have m2: "occurrences X ''\<newline>set reports_dir '' = 0"
    by (rule occurrences_foreign_char [OF Xs]) simp
  have m3: "occurrences X ''\<newline>set logs_dir '' = 0"
    by (rule occurrences_foreign_char [OF Xs]) simp
  have p5: "occurrences X script_tail = 0"
    unfolding X_def by (rule occurrences_longer [OF t])
  have "script_head @ (S @ ''/config/openroad_config.tcl'')
           @ ''\<newline>\<newline># Set up directories\<newline>set results_dir '' @ CHR 0x22 # (S @ ''/results'')
           @ CHR 0x22 # ''\<newline>set reports_dir '' @ CHR 0x22 # (S @ ''/reports'')
           @ CHR 0x22 # ''\<newline>set logs_dir '' @ CHR 0x22 # (S @ ''/logs'')
           @ CHR 0x22 # script_tail
      = (script_head @ S @ C1) @ CHR 0x22 # ((S @ ''/results'')
           @ CHR 0x22 # (''\<newline>set reports_dir '' @ CHR 0x22 # ((S @ ''/reports'')
           @ CHR 0x22 # (''\<newline>set logs_dir '' @ CHR 0x22 # ((S @ ''/logs'')
           @ CHR 0x22 # script_tail)))))"
    by (simp add: C1_def)
  then show ?thesis
    unfolding X_def[symmetric] C1_def[symmetric]
    by (simp only: occurrences_separator [OF q] p1 p2 p3 p4 p5 m2 m3)
qed


lemma occurrences_of_paths:
  assumes "CHR 0x22 \<notin> set S" and "S = [] \<or> hd S = CHR ''/''"
  shows "occurrences (S @ ''/config/openroad_config.tcl'')
          (script_head @ (S @ ''/config/openroad_config.tcl'')
           @ ''\<newline>\<newline># Set up directories\<newline>set results_dir '' @ CHR 0x22 # (S @ ''/results'')
           @ CHR 0x22 # ''\<newline>set reports_dir '' @ CHR 0x22 # (S @ ''/reports'')
           @ CHR 0x22 # ''\<newline>set logs_dir '' @ CHR 0x22 # (S @ ''/logs'')
           @ CHR 0x22 # script_tail) = 1"
    and "occurrences (S @ ''/results'')
          (script_head @ (S @ ''/config/openroad_config.tcl'')
           @ ''\<newline>\<newline># Set up directories\<newline>set results_dir '' @ CHR 0x22 # (S @ ''/results'')
           @ CHR 0x22 # ''\<newline>set reports_dir '' @ CHR 0x22 # (S @ ''/reports'')
           @ CHR 0x22 # ''\<newline>set logs_dir '' @ CHR 0x22 # (S @ ''/logs'')
           @ CHR 0x22 # script_tail) = 1"
    and "occurrences (S @ ''/reports'')
          (script_head @ (S @ ''/config/openroad_config.tcl'')
           @ ''\<newline>\<newline># Set up directories\<newline>set results_dir '' @ CHR 0x22 # (S @ ''/results'')
           @ CHR 0x22 # ''\<newline>set reports_dir '' @ CHR 0x22 # (S @ ''/reports'')
           @ CHR 0x22 # ''\<newline>set logs_dir '' @ CHR 0x22 # (S @ ''/logs'')
           @ CHR 0x22 # script_tail) = 1"
    and "occurrences (S @ ''/logs'')
          (script_head @ (S @ ''/config/openroad_config.tcl'')
           @ ''\<newline>\<newline># Set up directories\<newline>set results_dir '' @ CHR 0x22 # (S @ ''/results'')
           @ CHR 0x22 # ''\<newline>set reports_dir '' @ CHR 0x22 # (S @ ''/reports'')
           @ CHR 0x22 # ''\<newline>set logs_dir '' @ CHR 0x22 # (S @ ''/logs'')
           @ CHR 0x22 # script_tail) = 1"
proof -
  show "occurrences (S @ ''/config/openroad_config.tcl'')
          (script_head @ (S @ ''/config/openroad_config.tcl'')
           @ ''\<newline>\<newline># Set up directories\<newline>set results_dir '' @ CHR 0x22 # (S @ ''/results'')
           @ CHR 0x22 # ''\<newline>set reports_dir '' @ CHR 0x22 # (S @ ''/reports'')
           @ CHR 0x22 # ''\<newline>set logs_dir '' @ CHR 0x22 # (S @ ''/logs'')
           @ CHR 0x22 # script_tail) = 1"
    by (subst occurrences_in_script [OF assms _ _ _ _ _ _ _ script_tail_config]) simp_all
  show "occurrences (S @ ''/results'')
          (script_head @ (S @ ''/config/openroad_config.tcl'')
           @ ''\<newline>\<newline># Set up directories\<newline>set results_dir '' @ CHR 0x22 # (S @ ''/results'')
           @ CHR 0x22 # ''\<newline>set reports_dir '' @ CHR 0x22 # (S @ ''/reports'')
           @ CHR 0x22 # ''\<newline>set logs_dir '' @ CHR 0x22 # (S @ ''/logs'')
           @ CHR 0x22 # script_tail) = 1"
    by (subst occurrences_in_script [OF assms _ _ _ _ _ _ _ script_tail_results]) simp_all
  show "occurrences (S @ ''/reports'')
          (script_head @ (S @ ''/config/openroad_config.tcl'')
           @ ''\<newline>\<newline># Set up directories\<newline>set results_dir '' @ CHR 0x22 # (S @ ''/results'')
           @ CHR 0x22 # ''\<newline>set reports_dir '' @ CHR 0x22 # (S @ ''/reports'')
           @ CHR 0x22 # ''\<newline>set logs_dir '' @ CHR 0x22 # (S @ ''/logs'')
           @ CHR 0x22 # script_tail) = 1"
    by (subst occurrences_in_script [OF assms _ _ _ _ _ _ _ script_tail_reports]) simp_all
  show "occurrences (S @ ''/logs'')
          (script_head @ (S @ ''/config/openroad_config.tcl'')
           @ ''\<newline>\<newline># Set up directories\<newline>set results_dir '' @ CHR 0x22 # (S @ ''/results'')
           @ CHR 0x22 # ''\<newline>set reports_dir '' @ CHR 0x22 # (S @ ''/reports'')
           @ CHR 0x22 # ''\<newline>set logs_dir '' @ CHR 0x22 # (S @ ''/logs'')
           @ CHR 0x22 # script_tail) = 1"
    by (subst occurrences_in_script [OF assms _ _ _ _ _ _ _ script_tail_logs]) simp_all
qed


lemma occurrences_twice:
  assumes "p \<noteq> []" and "prefix p t" and "sublist p (tl t)"
  shows "2 \<le> occurrences p t"
proof (cases t)
  case Nil
  with assms show ?thesis by simp
next
  case (Cons x xs)
  with assms(3) have "sublist p xs" by simp
  then have "1 \<le> occurrences p xs" by (rule occurrences_at_least)
  with assms(2) Cons show ?thesis by simp
qed

text \<open>
  Against C9 as stated: started by the relative path \<^verbatim>\<open>scripts/vixen_synthesis.py\<close>, the
  script has the results directory \<^verbatim>\<open>results\<close>, and that text stands in the generated
  script at least twice: in \<^verbatim>\<open>set results_dir\<close> and between the quotes after it.
\<close>

theorem script_relative_root_results_twice:
  "str_path (results_dir (new_flow file_rel)) = ''results''
   \<and> 2 \<le> occurrences (str_path (results_dir (new_flow file_rel))) (tcl_script_text (new_flow file_rel))"
proof -
  have r: "str_path (results_dir (new_flow file_rel)) = ''results''"
    by (simp add: file_rel_def new_flow_fields)
  define U where "U = script_head @ str_path (config_file (new_flow file_rel))
     @ ''\<newline>\<newline># Set up directories\<newline>set results_dir ''"
  define V where "V = ''\<newline>set reports_dir '' @ CHR 0x22 # str_path (reports_dir (new_flow file_rel))
     @ CHR 0x22 # ''\<newline>set logs_dir '' @ CHR 0x22 # str_path (logs_dir (new_flow file_rel))
     @ CHR 0x22 # script_tail"
  have split: "tcl_script_text (new_flow file_rel) = U @ CHR 0x22 # (''results'' @ CHR 0x22 # V)"
    unfolding tcl_script_text_split r U_def V_def by simp
  have q: "CHR 0x22 \<notin> set ''results''" by simp
  have "U = (script_head @ str_path (config_file (new_flow file_rel)) @ ''\<newline>\<newline># Set up directories\<newline>set '')
            @ ''results'' @ ''_dir ''"
    by (simp add: U_def)
  then have "sublist ''results'' U" by (simp only: sublist_appendI)
  then have a: "1 \<le> occurrences ''results'' U" by (rule occurrences_at_least)
  have b: "occurrences ''results'' ''results'' = 1" by simp
  have "occurrences ''results'' (tcl_script_text (new_flow file_rel))
      = occurrences ''results'' U + (occurrences ''results'' ''results'' + occurrences ''results'' V)"
    unfolding split by (simp only: occurrences_separator [OF q])
  with a b have "2 \<le> occurrences ''results'' (tcl_script_text (new_flow file_rel))" by simp
  with r show ?thesis by simp
qed

text \<open>
  An absolute project root does not suffice either: with the root of \<open>file_quote\<close>, whose
  name contains double quotes, the text of the results directory stands in the script at
  two places that overlap.
\<close>

lemma script_quoted_root_results_twice:
  "2 \<le> occurrences (str_path (results_dir (new_flow file_quote))) (tcl_script_text (new_flow file_quote))"
proof -
  define Q where "Q = CHR 0x22 # ''\<newline>set reports_dir '' @ [CHR 0x22]"
  define S where "S = ''/results'' @ Q"
  define X where "X = S @ ''/results''"
  define rest where "rest = ''/reports'' @ CHR 0x22 # ''\<newline>set logs_dir '' @ CHR 0x22 # (S @ ''/logs'')
     @ CHR 0x22 # script_tail"
  define pre where "pre = script_head @ (S @ ''/config/openroad_config.tcl'')
     @ ''\<newline>\<newline># Set up directories\<newline>set results_dir '' @ [CHR 0x22]"
  have paths: "str_path (config_file (new_flow file_quote)) = S @ ''/config/openroad_config.tcl''"
    "str_path (results_dir (new_flow file_quote)) = X"
    "str_path (reports_dir (new_flow file_quote)) = S @ ''/reports''"
    "str_path (logs_dir (new_flow file_quote)) = S @ ''/logs''"
    by (simp_all add: file_quote_def new_flow_fields X_def S_def Q_def)
  have split: "tcl_script_text (new_flow file_quote) = pre @ (X @ Q @ S @ rest)"
    unfolding tcl_script_text_split paths by (simp add: pre_def rest_def Q_def X_def)
  have "X \<noteq> []" by (simp add: X_def S_def)
  moreover have "prefix X (X @ Q @ S @ rest)" by simp
  moreover have "sublist X (tl (X @ Q @ S @ rest))"
  proof -
    have "tl (X @ Q @ S @ rest) = (''results'' @ Q) @ X @ (Q @ rest)"
      by (simp add: X_def S_def)
    then show ?thesis by (simp only: sublist_appendI)
  qed
  ultimately have "2 \<le> occurrences X (X @ Q @ S @ rest)" by (rule occurrences_twice)
  also have "\<dots> \<le> occurrences X (pre @ (X @ Q @ S @ rest))" by (rule occurrences_after)
  finally show ?thesis unfolding paths split .
qed

text \<open>
  C9, amended. Let the script be started by an absolute path, and let no component of
  the project root contain a double quote. Then the generated text contains the
  configuration-file path exactly once, and each of the three directory paths (results,
  reports, logs) exactly once.
\<close>

theorem script_contains_each_path_once:
  assumes "absolute file"
    and "\<forall>c\<in>set (parts (project_root (new_flow file))). CHR 0x22 \<notin> set c"
  shows "occurrences (str_path (config_file (new_flow file))) (tcl_script_text (new_flow file)) = 1
       \<and> occurrences (str_path (results_dir (new_flow file))) (tcl_script_text (new_flow file)) = 1
       \<and> occurrences (str_path (reports_dir (new_flow file))) (tcl_script_text (new_flow file)) = 1
       \<and> occurrences (str_path (logs_dir (new_flow file))) (tcl_script_text (new_flow file)) = 1"
proof -
  from assms(1) obtain fps where fl: "file = Path True fps" by (cases "file") auto
  define ps where "ps = butlast (butlast fps)"
  define S where "S = root_text ps"
  have root: "parent (parent file) = Path True ps" by (simp add: fl ps_def)
  have "\<forall>c\<in>set ps. CHR 0x22 \<notin> set c"
    using assms(2) by (simp add: new_flow_fields root)
  then have "CHR 0x22 \<notin> set S"
    unfolding S_def by (rule root_text_without_quote)
  moreover have "S = [] \<or> hd S = CHR ''/''"
    unfolding S_def by (rule root_text_starts)
  ultimately have S: "CHR 0x22 \<notin> set S" "S = [] \<or> hd S = CHR ''/''" by simp_all
  have paths: "str_path (config_file (new_flow file)) = S @ ''/config/openroad_config.tcl''"
    "str_path (results_dir (new_flow file)) = S @ ''/results''"
    "str_path (reports_dir (new_flow file)) = S @ ''/reports''"
    "str_path (logs_dir (new_flow file)) = S @ ''/logs''"
    unfolding new_flow_fields root S_def
    by (simp_all only: str_path_joined str_path_joined_twice) simp_all
  show ?thesis
    unfolding tcl_script_text_split paths
    by (intro conjI occurrences_of_paths [OF S])
qed

theorem script_contains_each_path_once_witness:
  "absolute file0
   \<and> str_path (config_file (new_flow file0)) = ''/proj/config/openroad_config.tcl''
   \<and> str_path (results_dir (new_flow file0)) = ''/proj/results''
   \<and> str_path (reports_dir (new_flow file0)) = ''/proj/reports''
   \<and> str_path (logs_dir (new_flow file0)) = ''/proj/logs''
   \<and> occurrences ''/proj/config/openroad_config.tcl'' (tcl_script_text (new_flow file0)) = 1
   \<and> occurrences ''/proj/results'' (tcl_script_text (new_flow file0)) = 1
   \<and> occurrences ''/proj/reports'' (tcl_script_text (new_flow file0)) = 1
   \<and> occurrences ''/proj/logs'' (tcl_script_text (new_flow file0)) = 1"
proof -
  have a: "absolute file0" by (simp add: file0_def)
  have b: "\<forall>c\<in>set (parts (project_root (new_flow file0))). CHR 0x22 \<notin> set c"
    by (simp add: file0_def new_flow_fields)
  have paths: "str_path (config_file (new_flow file0)) = ''/proj/config/openroad_config.tcl''"
    "str_path (results_dir (new_flow file0)) = ''/proj/results''"
    "str_path (reports_dir (new_flow file0)) = ''/proj/reports''"
    "str_path (logs_dir (new_flow file0)) = ''/proj/logs''"
    by (simp_all add: file0_def new_flow_fields)
  from script_contains_each_path_once [OF a b] a paths show ?thesis
    by (simp only: paths)
qed

end
